theory Spec2Isabelle
  imports Complex_Main "HOL-Library.Sublist"
begin

section \<open>JavaScript values\<close>

text \<open>
  The services exchange JSON and bearer tokens. A token is a string for the code, but
  what the code observes of it (whether \<^verbatim>\<open>jwt.verify\<close> accepts it, and with which
  claims) depends on its signature, so a token is kept symbolic inside the strings that
  carry it: a string is a list of atoms, an atom being a character or the compact
  serialisation of one JSON Web Token.
\<close>

record jwt_payload =
  userId :: int
  email :: string
  iat :: nat
  exp_claim :: nat

text \<open>
  The signature of a token is the HMAC of a payload under a key. It is symbolic: it
  matches exactly the payload and the key it was computed from.
\<close>

datatype hmac = Hmac string jwt_payload

record jwt =
  payload :: jwt_payload
  signature :: hmac

text \<open>
  \<open>NumText n\<close> stands for the characters that \<^verbatim>\<open>Number.prototype.toString\<close>
  gives for the number \<open>n\<close>; they are not spelled out.
\<close>

datatype atom = Chr char | Tok jwt | NumText rat

type_synonym str = "atom list"

abbreviation Txt :: "string \<Rightarrow> str" where
  "Txt s \<equiv> map Chr s"

text \<open>
  A JSON value. A JavaScript value that may be \<^verbatim>\<open>undefined\<close> is a \<open>json option\<close>,
  \<open>None\<close> being \<^verbatim>\<open>undefined\<close>. A number is the rational value of a double; where
  the code multiplies, the product is rounded to a double again (\<open>double_times\<close>
  below).
\<close>

datatype json =
    JNull
  | JBool bool
  | JNum rat
  | JStr str
  | JArr "json list"
  | JObj "(string \<times> json) list"

datatype js_error = TypeError string | SyntaxError string | Error string

fun message :: "js_error \<Rightarrow> string" where
  "message (TypeError m) = m"
| "message (SyntaxError m) = m"
| "message (Error m) = m"

text \<open>Truthiness, as \<^verbatim>\<open>!x\<close>, \<^verbatim>\<open>x || y\<close> and \<^verbatim>\<open>if (x)\<close> test it.\<close>

fun truthy :: "json option \<Rightarrow> bool" where
  "truthy None = False"
| "truthy (Some JNull) = False"
| "truthy (Some (JBool b)) = b"
| "truthy (Some (JNum n)) = (n \<noteq> 0)"
| "truthy (Some (JStr s)) = (s \<noteq> [])"
| "truthy (Some (JArr xs)) = True"
| "truthy (Some (JObj fs)) = True"

text \<open>
  Property access \<^verbatim>\<open>v.k\<close>: a TypeError on \<^verbatim>\<open>undefined\<close> and \<^verbatim>\<open>null\<close>, the
  field of an object, \<^verbatim>\<open>undefined\<close> on every other value (none of the property names
  the code reads is a built-in property of a string, number or array).
\<close>

fun get_prop :: "json option \<Rightarrow> string \<Rightarrow> js_error + json option" where
  "get_prop None k =
     Inl (TypeError (''Cannot read properties of undefined (reading '' @ [CHR 0x27] @ k @ [CHR 0x27] @ '')''))"
| "get_prop (Some JNull) k =
     Inl (TypeError (''Cannot read properties of null (reading '' @ [CHR 0x27] @ k @ [CHR 0x27] @ '')''))"
| "get_prop (Some (JObj fs)) k = Inr (map_of fs k)"
| "get_prop (Some v) k = Inr None"

text \<open>
  An object literal as \<^verbatim>\<open>res.json\<close> serialises it: a property whose value is
  \<^verbatim>\<open>undefined\<close> is left out.
\<close>

definition obj :: "(string \<times> json option) list \<Rightarrow> json" where
  "obj fs = JObj (List.map_filter (\<lambda>(k, v). map_option (Pair k) v) fs)"

record http_response =
  status :: nat
  body :: json

section \<open>The jsonwebtoken library\<close>

datatype jwt_error = TokenExpiredError | JsonWebTokenError

text \<open>
  Modelled from the spec: the calls \<^verbatim>\<open>jwt.sign(payload, secret, {expiresIn})\<close> and
  \<^verbatim>\<open>jwt.verify(token, secret)\<close> of the library jsonwebtoken, whose code is not part
  of the repository.
  Signing binds the claims and an expiry (issue time plus lifetime, in seconds) under the
  secret and throws without a secret. Verification fails with JsonWebTokenError on a
  missing, non-string or malformed token, on a missing secret and on a signature that
  does not match, then with TokenExpiredError once the clock has reached the expiry;
  otherwise it returns the payload. The clock is \<^verbatim>\<open>Date.now()\<close>, in milliseconds.
\<close>

definition jwt_sign :: "int \<Rightarrow> string \<Rightarrow> string option \<Rightarrow> nat \<Rightarrow> nat \<Rightarrow> js_error + str" where
  "jwt_sign uid em secret expiresIn now =
     (case secret of
        None \<Rightarrow> Inl (Error ''secretOrPrivateKey must have a value'')
      | Some k \<Rightarrow>
          if k = [] then Inl (Error ''secretOrPrivateKey must have a value'')
          else
            let p = \<lparr>userId = uid, email = em, iat = now div 1000,
                     exp_claim = now div 1000 + expiresIn\<rparr>
            in Inr [Tok \<lparr>payload = p, signature = Hmac k p\<rparr>])"

fun jwt_verify :: "json option \<Rightarrow> string option \<Rightarrow> nat \<Rightarrow> jwt_error + jwt_payload" where
  "jwt_verify (Some (JStr [Tok t])) (Some k) now =
     (if k = [] then Inl JsonWebTokenError
      else if signature t \<noteq> Hmac k (payload t) then Inl JsonWebTokenError
      else if now div 1000 \<ge> exp_claim (payload t) then Inl TokenExpiredError
      else Inr (payload t))"
| "jwt_verify tok secret now = Inl JsonWebTokenError"

section \<open>Authentication middleware (email/middleware/auth.js)\<close>

text \<open>\<^verbatim>\<open>s.split(' ')\<close>: the pieces of \<open>s\<close> between the occurrences of the separator.\<close>

fun split :: "'a \<Rightarrow> 'a list \<Rightarrow> 'a list list" where
  "split sep [] = [[]]"
| "split sep (x # xs) =
     (if x = sep then [] # split sep xs
      else (case split sep xs of
              [] \<Rightarrow> [[x]]
            | w # ws \<Rightarrow> (x # w) # ws))"

text \<open>\<^verbatim>\<open>xs[i]\<close> on an array: \<^verbatim>\<open>undefined\<close> out of range.\<close>

definition at_index :: "'a list \<Rightarrow> nat \<Rightarrow> 'a option" where
  "at_index xs i = (if i < length xs then Some (xs ! i) else None)"

text \<open>
  \<open>authenticateToken\<close> either answers the request (\<open>Inl\<close>) or calls \<^verbatim>\<open>next()\<close> with
  \<^verbatim>\<open>req.user\<close> set to the decoded payload (\<open>Inr\<close>). Its inputs are the environment's
  \<^verbatim>\<open>JWT_SECRET\<close>, the clock and the Authorization header.
\<close>

definition authenticateToken :: "string option \<Rightarrow> nat \<Rightarrow> str option \<Rightarrow> http_response + jwt_payload" where
  "authenticateToken secret now authHeader =
     (let token = (case authHeader of
                     None \<Rightarrow> None
                   | Some h \<Rightarrow> if h = [] then Some [] else at_index (split (Chr CHR '' '') h) 1)
      in if \<not> truthy (map_option JStr token) then
           Inl \<lparr>status = 401,
                body = JObj [(''success'', JBool False),
                             (''message'', JStr (Txt ''Access token required''))]\<rparr>
         else
           (case jwt_verify (map_option JStr token) secret now of
              Inr decoded \<Rightarrow> Inr decoded
            | Inl TokenExpiredError \<Rightarrow>
                Inl \<lparr>status = 401,
                     body = JObj [(''success'', JBool False),
                                  (''message'', JStr (Txt ''Access token expired'')),
                                  (''expired'', JBool True)]\<rparr>
            | Inl JsonWebTokenError \<Rightarrow>
                Inl \<lparr>status = 403,
                     body = JObj [(''success'', JBool False),
                                  (''message'', JStr (Txt ''Invalid access token''))]\<rparr>))"

section \<open>Auth service (token issuance and refresh)\<close>

text \<open>
  The two \<^verbatim>\<open>jwt.sign\<close> calls of the login handler: the access token lives one hour,
  the refresh token seven days, both under the same secret.
\<close>

definition issueAccessToken :: "string option \<Rightarrow> nat \<Rightarrow> int \<Rightarrow> string \<Rightarrow> js_error + str" where
  "issueAccessToken secret now uid em = jwt_sign uid em secret 3600 now"

definition issueRefreshToken :: "string option \<Rightarrow> nat \<Rightarrow> int \<Rightarrow> string \<Rightarrow> js_error + str" where
  "issueRefreshToken secret now uid em = jwt_sign uid em secret 604800 now"

text \<open>
  The handler of \<^verbatim>\<open>POST /refresh-token\<close>. \<open>req_body\<close> holds the properties of the
  parsed request body.
\<close>

definition refresh_token_route :: "string option \<Rightarrow> nat \<Rightarrow> (string \<times> json) list \<Rightarrow> http_response" where
  "refresh_token_route secret now req_body =
     (let refreshToken = map_of req_body ''refreshToken'';
          failed = \<lparr>status = 500,
                    body = JObj [(''success'', JBool False),
                                 (''message'', JStr (Txt ''Failed to refresh token''))]\<rparr>
      in case jwt_verify refreshToken secret now of
           Inl e \<Rightarrow> failed
         | Inr decoded \<Rightarrow>
             (case jwt_sign (userId decoded) (email decoded) secret 3600 now of
                Inl e \<Rightarrow> failed
              | Inr accessToken \<Rightarrow>
                  \<lparr>status = 200,
                   body = JObj [(''success'', JBool True),
                                (''message'', JStr (Txt ''Token refreshed successfully'')),
                                (''data'', JObj [(''accessToken'', JStr accessToken)])]\<rparr>))"

section \<open>Order service: the read routes\<close>

text \<open>
  A row of the table \<^verbatim>\<open>orders\<close>, as the driver returns it. A timestamp is its time
  value in milliseconds, a DECIMAL amount the number \<^verbatim>\<open>parseFloat\<close> reads from it.
\<close>

record order_row =
  order_id :: string
  user_id :: int
  transaction_id :: string
  conversation_id :: "string option"
  transaction_reference :: "string option"
  third_party_reference :: "string option"
  amount :: rat
  cart_col :: json
  customer_phone :: "string option"
  status_col :: "string option"
  created_at :: nat
  updated_at :: nat

text \<open>
  The store as one request finds it: \<^verbatim>\<open>pool.connect()\<close> rejects, or the query
  rejects with a message, or the query runs on the rows of the table.
\<close>

datatype db = Connect_failed | Query_failed string | Table "order_row list"

definition nullable :: "string option \<Rightarrow> json" where
  "nullable v = (case v of None \<Rightarrow> JNull | Some s \<Rightarrow> JStr (Txt s))"

text \<open>The object each read route builds from a row.\<close>

definition format_order :: "order_row \<Rightarrow> json" where
  "format_order row =
     JObj [(''orderId'', JStr (Txt (order_id row))),
           (''userId'', JNum (of_int (user_id row))),
           (''transactionId'', JStr (Txt (transaction_id row))),
           (''conversationId'', nullable (conversation_id row)),
           (''transactionReference'', nullable (transaction_reference row)),
           (''thirdPartyReference'', nullable (third_party_reference row)),
           (''amount'', JNum (amount row)),
           (''cart'', cart_col row),
           (''customerPhone'', nullable (customer_phone row)),
           (''status'', nullable (status_col row)),
           (''createdAt'', JNum (of_nat (created_at row))),
           (''updatedAt'', JNum (of_nat (updated_at row)))]"

definition fetch_failed :: "string \<Rightarrow> string \<Rightarrow> http_response" where
  "fetch_failed what msg =
     \<lparr>status = 500,
      body = JObj [(''success'', JBool False),
                   (''message'', JStr (Txt what)),
                   (''error'', JStr (Txt msg))]\<rparr>"

definition not_found :: http_response where
  "not_found =
     \<lparr>status = 404,
      body = JObj [(''success'', JBool False),
                   (''message'', JStr (Txt ''Order not found''))]\<rparr>"

text \<open>
  The handlers take \<^verbatim>\<open>req.user\<close>, which \<open>authenticateToken\<close> has set. A handler
  that rejects before it answers (the connection is taken outside its
  \<^verbatim>\<open>try\<close>) sends no response: \<open>None\<close>.

  \<^verbatim>\<open>GET /orders\<close>:
  \<^verbatim>\<open>SELECT * FROM orders WHERE user_id = $1 ORDER BY created_at DESC\<close>.
\<close>

definition get_orders :: "db \<Rightarrow> jwt_payload \<Rightarrow> http_response option" where
  "get_orders store user =
     (case store of
        Connect_failed \<Rightarrow> None
      | Query_failed msg \<Rightarrow> Some (fetch_failed ''Failed to fetch orders'' msg)
      | Table tbl \<Rightarrow>
          let rows = rev (sort_key created_at (filter (\<lambda>r. user_id r = userId user) tbl));
              userOrders = map format_order rows
          in Some \<lparr>status = 200,
                   body = JObj [(''success'', JBool True),
                                (''count'', JNum (of_nat (length userOrders))),
                                (''data'', JArr userOrders)]\<rparr>)"

text \<open>
  \<^verbatim>\<open>GET /orders/:orderId\<close>:
  \<^verbatim>\<open>SELECT * FROM orders WHERE order_id = $1 AND user_id = $2\<close>.
\<close>

definition get_order_by_id :: "db \<Rightarrow> jwt_payload \<Rightarrow> string \<Rightarrow> http_response option" where
  "get_order_by_id store user orderId =
     (case store of
        Connect_failed \<Rightarrow> None
      | Query_failed msg \<Rightarrow> Some (fetch_failed ''Failed to fetch order'' msg)
      | Table tbl \<Rightarrow>
          (case filter (\<lambda>r. order_id r = orderId \<and> user_id r = userId user) tbl of
             [] \<Rightarrow> Some not_found
           | row # rest \<Rightarrow>
               Some \<lparr>status = 200,
                     body = JObj [(''success'', JBool True),
                                  (''data'', format_order row)]\<rparr>))"

text \<open>
  \<^verbatim>\<open>GET /orders/transaction/:transactionId\<close>:
  \<^verbatim>\<open>SELECT * FROM orders WHERE transaction_id = $1 AND user_id = $2\<close>.
\<close>

definition get_order_by_transaction :: "db \<Rightarrow> jwt_payload \<Rightarrow> string \<Rightarrow> http_response option" where
  "get_order_by_transaction store user transactionId =
     (case store of
        Connect_failed \<Rightarrow> None
      | Query_failed msg \<Rightarrow> Some (fetch_failed ''Failed to fetch order'' msg)
      | Table tbl \<Rightarrow>
          (case filter (\<lambda>r. transaction_id r = transactionId \<and> user_id r = userId user) tbl of
             [] \<Rightarrow> Some not_found
           | row # rest \<Rightarrow>
               Some \<lparr>status = 200,
                     body = JObj [(''success'', JBool True),
                                  (''data'', format_order row)]\<rparr>))"

text \<open>The orders a response carries: the elements of \<open>data\<close>, or \<open>data\<close> itself.\<close>

definition returned_orders :: "http_response option \<Rightarrow> json list" where
  "returned_orders r =
     (case r of
        None \<Rightarrow> []
      | Some resp \<Rightarrow>
          (case get_prop (Some (body resp)) ''data'' of
             Inr (Some (JArr os)) \<Rightarrow> os
           | Inr (Some (JObj fs)) \<Rightarrow> [JObj fs]
           | _ \<Rightarrow> []))"

section \<open>Payment service (the orchestrator)\<close>

text \<open>The decimal digits of a natural number, as a template literal renders an integer.\<close>

definition digit :: "nat \<Rightarrow> char" where
  "digit d = ''0123456789'' ! d"

fun show_nat :: "nat \<Rightarrow> string" where
  "show_nat n = (if n < 10 then [digit n] else show_nat (n div 10) @ [digit (n mod 10)])"

declare show_nat.simps [simp del]

text \<open>
  The outcome of one \<^verbatim>\<open>axios.post\<close>: it resolves with a status and the parsed
  body, or rejects with an error that carries a message and, when the server answered, the
  response (\<^verbatim>\<open>error.response\<close>).
\<close>

datatype axios_result = Resolved nat json | Rejected "(nat \<times> json) option" string

text \<open>
  What one run of the payment handler reads from outside: the clock reading
  (\<^verbatim>\<open>Date.now()\<close>, in milliseconds) and the random double (\<^verbatim>\<open>Math.random()\<close>, at least
  0 and below 1) that \<open>generateTransactionRef\<close> reads, the string \<open>generateThirdPartyRef\<close>
  returns (the base-36 digits of a random double, not spelled out), the outcomes of the
  three outbound calls, the timestamp put on the order, and the four formatted durations
  of the \<open>performance\<close> property.
\<close>

record payment_env =
  date_now :: nat
  math_random :: rat
  third_party_random :: string
  mpesa :: axios_result
  order_service :: axios_result
  email_service :: axios_result
  iso_timestamp :: string
  performance :: json

text \<open>The outbound calls a run makes, in order, each with the body it posts.\<close>

datatype call = Mpesa_call json | Order_call json | Email_call json

text \<open>
  The request body, typed as the client's \<^verbatim>\<open>PaymentRequest\<close>; a missing property is
  \<open>None\<close>. \<open>total_amount\<close> is the property \<^verbatim>\<open>total\<close>.
\<close>

record payment_request =
  cart :: "json option"
  total_amount :: "rat option"
  customerPhone :: "string option"

text \<open>
  The result objects of \<open>processMpesaPayment\<close>, \<open>createOrder\<close> and \<open>sendEmail\<close>;
  a property the object does not have is \<open>None\<close>.
\<close>

record call_result =
  success :: bool
  statusCode :: "nat option"
  data :: "json option"
  error :: "json option"

definition defaultPhone :: string where
  "defaultPhone = ''258845760448''"

definition serviceProviderCode :: string where
  "serviceProviderCode = ''171717''"

definition formatPhoneNumber :: "string \<Rightarrow> string" where
  "formatPhoneNumber phone = (if prefix ''258'' phone then phone else ''258'' @ phone)"

text \<open>
  Arithmetic on doubles (IEEE 754 binary64, round to nearest, ties to even).
  \<open>bit_length n\<close> is the number of binary digits of \<open>n\<close>, and \<open>binary_exponent x\<close>,
  for a positive \<open>x\<close>, the exponent \<open>e\<close> with \<open>2\<^sup>e \<le> x < 2\<^sup>e\<^sup>+\<^sup>1\<close>. \<open>to_double x\<close> is the
  double nearest to \<open>x\<close>: a multiple of the unit in the last place \<open>2\<^sup>e\<^sup>-\<^sup>5\<^sup>2\<close>, where the
  exponent is at least \<open>-1022\<close> (below it the doubles are subnormal). Overflow to
  \<^verbatim>\<open>Infinity\<close> is not modelled: the products of the code are below 1000.
\<close>

fun bit_length :: "nat \<Rightarrow> nat" where
  "bit_length n = (if n = 0 then 0 else Suc (bit_length (n div 2)))"

declare bit_length.simps [simp del]

definition binary_exponent :: "rat \<Rightarrow> int" where
  "binary_exponent x =
     (if 1 \<le> x then int (bit_length (nat \<lfloor>x\<rfloor>)) - 1
      else
        let j = int (bit_length (nat \<lfloor>1 / x\<rfloor>)) - 1
        in if x * 2 powi j = 1 then - j else - j - 1)"

definition round_half_even :: "rat \<Rightarrow> int" where
  "round_half_even q =
     (let m = \<lfloor>q\<rfloor>; r = q - of_int m
      in if r < 1 / 2 then m
         else if 1 / 2 < r then m + 1
         else if even m then m else m + 1)"

definition to_double :: "rat \<Rightarrow> rat" where
  "to_double x =
     (if x = 0 then 0
      else
        let e = max (binary_exponent \<bar>x\<bar>) (- 1022);
            ulp = 2 powi (e - 52)
        in sgn x * of_int (round_half_even (\<bar>x\<bar> / ulp)) * ulp)"

text \<open>The product \<^verbatim>\<open>a * b\<close> of two doubles.\<close>

definition double_times :: "rat \<Rightarrow> rat \<Rightarrow> rat" where
  "double_times a b = to_double (a * b)"

text \<open>
  \<^verbatim>\<open>`TXN${Date.now()}${Math.floor(Math.random() * 1000)}`\<close>, for the clock reading
  \<open>now\<close> and the double \<open>random\<close> that \<^verbatim>\<open>Math.random()\<close> returns, which is at least
  0 and below 1.
\<close>

definition generateTransactionRef :: "nat \<Rightarrow> rat \<Rightarrow> string" where
  "generateTransactionRef now random =
     ''TXN'' @ show_nat now @ show_nat (nat \<lfloor>double_times random 1000\<rfloor>)"

definition generateThirdPartyRef :: "payment_env \<Rightarrow> string" where
  "generateThirdPartyRef env = third_party_random env"

definition createOrder :: "payment_env \<Rightarrow> json \<Rightarrow> call_result \<times> call list" where
  "createOrder env orderData =
     (case order_service env of
        Rejected resp msg \<Rightarrow>
          (\<lparr>success = False, statusCode = None, data = None, error = Some (JStr (Txt msg))\<rparr>,
           [Order_call orderData])
      | Resolved st d \<Rightarrow>
          (case get_prop (Some d) ''data'' of
             Inl e \<Rightarrow>
               (\<lparr>success = False, statusCode = None, data = None,
                 error = Some (JStr (Txt (message e)))\<rparr>,
                [Order_call orderData])
           | Inr dd \<Rightarrow>
               (\<lparr>success = True, statusCode = None, data = dd, error = None\<rparr>,
                [Order_call orderData])))"

definition sendEmail :: "payment_env \<Rightarrow> json option \<Rightarrow> rat \<Rightarrow> string \<Rightarrow> call_result \<times> call list" where
  "sendEmail env cart' total' customerPhone' =
     (let posted = obj [(''cart'', cart'), (''total'', Some (JNum total')),
                        (''customerPhone'', Some (JStr (Txt customerPhone')))]
      in case email_service env of
           Rejected resp msg \<Rightarrow>
             (\<lparr>success = False, statusCode = None, data = None, error = Some (JStr (Txt msg))\<rparr>,
              [Email_call posted])
         | Resolved st d \<Rightarrow>
             (\<lparr>success = True, statusCode = None, data = Some d, error = None\<rparr>,
              [Email_call posted]))"

definition processMpesaPayment ::
  "payment_env \<Rightarrow> rat \<Rightarrow> string \<Rightarrow> string \<Rightarrow> string \<Rightarrow> call_result \<times> call list" where
  "processMpesaPayment env amount' phoneNumber transactionRef thirdPartyRef =
     (let payload = JObj [(''input_TransactionReference'', JStr (Txt transactionRef)),
                          (''input_CustomerMSISDN'', JStr (Txt (formatPhoneNumber phoneNumber))),
                          (''input_Amount'', JStr [NumText amount']),
                          (''input_ThirdPartyReference'', JStr (Txt thirdPartyRef)),
                          (''input_ServiceProviderCode'', JStr (Txt serviceProviderCode))]
      in case mpesa env of
           Resolved st d \<Rightarrow>
             (case get_prop (Some d) ''output_ResponseDesc'' of
                Inl e \<Rightarrow>
                  (\<lparr>success = False, statusCode = Some 500, data = None,
                    error = Some (JStr (Txt (message e)))\<rparr>,
                   [Mpesa_call payload])
              | Inr desc \<Rightarrow>
                  (\<lparr>success = True, statusCode = Some st, data = Some d, error = None\<rparr>,
                   [Mpesa_call payload]))
         | Rejected resp msg \<Rightarrow>
             (\<lparr>success = False,
               statusCode = Some (case resp of
                                    None \<Rightarrow> 500
                                  | Some (st, d) \<Rightarrow> if st = 0 then 500 else st),
               data = None,
               error = Some (case resp of
                               None \<Rightarrow> JStr (Txt msg)
                             | Some (st, d) \<Rightarrow> if truthy (Some d) then d else JStr (Txt msg))\<rparr>,
              [Mpesa_call payload]))"

text \<open>\<^verbatim>\<open>customerPhone || MPESA_CONFIG.defaultPhone\<close>.\<close>

definition phone_or_default :: "payment_request \<Rightarrow> string" where
  "phone_or_default req =
     (case customerPhone req of
        None \<Rightarrow> defaultPhone
      | Some p \<Rightarrow> if p = [] then defaultPhone else p)"

definition invalid_total :: http_response where
  "invalid_total =
     \<lparr>status = 400,
      body = JObj [(''success'', JBool False),
                   (''message'', JStr (Txt ''Invalid or missing total amount''))]\<rparr>"

definition payment_failed :: "call_result \<Rightarrow> http_response" where
  "payment_failed result =
     \<lparr>status = (case statusCode result of
                  None \<Rightarrow> 500
                | Some sc \<Rightarrow> if sc = 0 then 500 else sc),
      body = obj [(''success'', Some (JBool False)),
                  (''message'', Some (JStr (Txt ''Payment failed''))),
                  (''error'', error result)]\<rparr>"

definition internal_error :: "js_error \<Rightarrow> http_response" where
  "internal_error e =
     \<lparr>status = 500,
      body = JObj [(''success'', JBool False),
                   (''message'', JStr (Txt ''Internal server error'')),
                   (''error'', JStr (Txt (message e)))]\<rparr>"

text \<open>
  The handler of \<^verbatim>\<open>POST /api/payment\<close>, after \<open>authenticateToken\<close> has set
  \<^verbatim>\<open>req.user\<close>. It returns the response and the outbound calls made. The durations
  it measures only enter the \<open>performance\<close> property, which is taken from the
  environment.
\<close>

definition payment_handler ::
  "payment_env \<Rightarrow> jwt_payload \<Rightarrow> payment_request \<Rightarrow> http_response \<times> call list" where
  "payment_handler env user req =
     (case total_amount req of
        None \<Rightarrow> (invalid_total, [])
      | Some total' \<Rightarrow>
          if total' = 0 \<or> total' \<le> 0 then (invalid_total, [])
          else
            let phone = phone_or_default req;
                transactionRef = generateTransactionRef (date_now env) (math_random env);
                thirdPartyRef = generateThirdPartyRef env;
                (result, calls1) = processMpesaPayment env total' phone transactionRef thirdPartyRef
            in
              if success result \<and> statusCode result = Some 201 then
                (case (get_prop (data result) ''output_TransactionID'',
                       get_prop (data result) ''output_ConversationID'',
                       get_prop (data result) ''output_ResponseCode'',
                       get_prop (data result) ''output_ResponseDesc'') of
                   (Inr transactionId, Inr conversationId, Inr responseCode, Inr responseDesc) \<Rightarrow>
                     let orderData = obj [(''userId'', Some (JNum (of_int (userId user)))),
                                          (''transactionId'', transactionId),
                                          (''conversationId'', conversationId),
                                          (''transactionReference'', Some (JStr (Txt transactionRef))),
                                          (''thirdPartyReference'', Some (JStr (Txt thirdPartyRef))),
                                          (''amount'', Some (JNum total')),
                                          (''cart'', cart req),
                                          (''customerPhone'', Some (JStr (Txt phone))),
                                          (''timestamp'', Some (JStr (Txt (iso_timestamp env))))];
                         (orderResult, calls2) = createOrder env orderData;
                         attached = (if success orderResult
                                     then get_prop (data orderResult) ''orderId''
                                     else Inr None)
                     in
                       (case attached of
                          Inl e \<Rightarrow> (internal_error e, calls1 @ calls2)
                        | Inr orderId \<Rightarrow>
                            let (emailResult, calls3) = sendEmail env (cart req) total' phone
                            in (\<lparr>status = 200,
                                 body = obj [(''success'', Some (JBool True)),
                                             (''message'', Some (JStr (Txt ''Payment processed successfully''))),
                                             (''data'',
                                              Some (obj [(''transactionId'', transactionId),
                                                         (''conversationId'', conversationId),
                                                         (''responseCode'', responseCode),
                                                         (''responseDesc'', responseDesc),
                                                         (''transactionReference'', Some (JStr (Txt transactionRef))),
                                                         (''thirdPartyReference'', Some (JStr (Txt thirdPartyRef))),
                                                         (''amount'', Some (JNum total')),
                                                         (''cart'', cart req),
                                                         (''orderId'', orderId),
                                                         (''performance'', Some (performance env))]))]\<rparr>,
                                calls1 @ calls2 @ calls3))
                 | (Inl e, _) \<Rightarrow> (internal_error e, calls1)
                 | (_, Inl e, _) \<Rightarrow> (internal_error e, calls1)
                 | (_, _, Inl e, _) \<Rightarrow> (internal_error e, calls1)
                 | (_, _, _, Inl e) \<Rightarrow> (internal_error e, calls1))
              else (payment_failed result, calls1))"


section \<open>Client (client/lib/api.ts)\<close>

text \<open>
  The string conversion that \<^verbatim>\<open>localStorage.setItem\<close> and a template literal apply
  to a value.
\<close>

fun join :: "'a list \<Rightarrow> 'a list list \<Rightarrow> 'a list" where
  "join sep [] = []"
| "join sep [x] = x"
| "join sep (x # y # ys) = x @ sep @ join sep (y # ys)"

fun json_to_String :: "json \<Rightarrow> str" where
  "json_to_String JNull = Txt ''null''"
| "json_to_String (JBool b) = Txt (if b then ''true'' else ''false'')"
| "json_to_String (JNum n) = [NumText n]"
| "json_to_String (JStr s) = s"
| "json_to_String (JArr xs) =
     join (Txt '','') (map (\<lambda>x. if x = JNull then [] else json_to_String x) xs)"
| "json_to_String (JObj fs) = Txt ''[object Object]''"

definition to_String :: "json option \<Rightarrow> str" where
  "to_String v = (case v of None \<Rightarrow> Txt ''undefined'' | Some j \<Rightarrow> json_to_String j)"

datatype service = Payment_api | Auth_api | Order_api

record request =
  rq_service :: service
  rq_path :: string
  rq_method :: string
  rq_authorization :: "str option"
  rq_body :: "json option"

text \<open>
  What \<^verbatim>\<open>fetch\<close> gives: it rejects, or resolves with a status and a body, \<open>None\<close>
  when the body is not JSON. The network answers a request knowing how many requests the
  client has sent before it.
\<close>

datatype fetch_result = Network_error | Response nat "json option"

type_synonym network = "nat \<Rightarrow> request \<Rightarrow> fetch_result"

text \<open>
  The state of the page: whether \<^verbatim>\<open>window\<close> is defined, the local storage, and the
  requests sent so far.
\<close>

record browser =
  window :: bool
  localStorage :: "string \<Rightarrow> str option"
  sent :: "request list"

definition fetch :: "network \<Rightarrow> request \<Rightarrow> browser \<Rightarrow> fetch_result \<times> browser" where
  "fetch net rq st = (net (length (sent st)) rq, st\<lparr>sent := sent st @ [rq]\<rparr>)"

text \<open>\<^verbatim>\<open>response.json()\<close>.\<close>

definition response_json :: "json option \<Rightarrow> js_error + json" where
  "response_json b =
     (case b of
        None \<Rightarrow> Inl (SyntaxError ''Unexpected token in JSON'')
      | Some j \<Rightarrow> Inr j)"

definition ok :: "nat \<Rightarrow> bool" where
  "ok st = (200 \<le> st \<and> st \<le> 299)"

definition getAccessToken :: "browser \<Rightarrow> str option" where
  "getAccessToken st = (if window st then localStorage st ''accessToken'' else None)"

definition getRefreshToken :: "browser \<Rightarrow> str option" where
  "getRefreshToken st = (if window st then localStorage st ''refreshToken'' else None)"

definition saveTokens :: "json option \<Rightarrow> json option \<Rightarrow> browser \<Rightarrow> browser" where
  "saveTokens accessToken refreshToken st =
     (if window st
      then st\<lparr>localStorage :=
                (localStorage st)(''accessToken'' \<mapsto> to_String accessToken,
                                  ''refreshToken'' \<mapsto> to_String refreshToken)\<rparr>
      else st)"

definition clearTokens :: "browser \<Rightarrow> browser" where
  "clearTokens st =
     (if window st
      then st\<lparr>localStorage := (localStorage st)(''accessToken'' := None, ''refreshToken'' := None)\<rparr>
      else st)"

text \<open>The requests the client sends.\<close>

definition refresh_request :: "json \<Rightarrow> request" where
  "refresh_request request =
     \<lparr>rq_service = Auth_api, rq_path = ''/api/refresh-token'', rq_method = ''POST'',
      rq_authorization = None, rq_body = Some request\<rparr>"

definition payment_request_with :: "str \<Rightarrow> json \<Rightarrow> request" where
  "payment_request_with token request =
     \<lparr>rq_service = Payment_api, rq_path = ''/api/payment'', rq_method = ''POST'',
      rq_authorization = Some (Txt ''Bearer '' @ token), rq_body = Some request\<rparr>"

definition orders_request_with :: "str \<Rightarrow> request" where
  "orders_request_with token =
     \<lparr>rq_service = Order_api, rq_path = ''/api/orders'', rq_method = ''GET'',
      rq_authorization = Some (Txt ''Bearer '' @ token), rq_body = None\<rparr>"

definition order_request_with :: "string \<Rightarrow> str \<Rightarrow> request" where
  "order_request_with orderId token =
     \<lparr>rq_service = Order_api, rq_path = ''/api/orders/'' @ orderId, rq_method = ''GET'',
      rq_authorization = Some (Txt ''Bearer '' @ token), rq_body = None\<rparr>"

text \<open>\<open>refreshToken(request)\<close>: the body of the answer, whatever its status.\<close>

definition refreshToken :: "network \<Rightarrow> json \<Rightarrow> browser \<Rightarrow> (js_error + json) \<times> browser" where
  "refreshToken net request st =
     (case fetch net (refresh_request request) st of
        (Network_error, st1) \<Rightarrow> (Inl (TypeError ''Failed to fetch''), st1)
      | (Response code b, st1) \<Rightarrow> (response_json b, st1))"

text \<open>
  \<open>handleTokenRefresh\<close> returns the new access token; \<open>None\<close> is \<^verbatim>\<open>null\<close>, or
  the \<^verbatim>\<open>undefined\<close> of an answer without \<^verbatim>\<open>accessToken\<close>.
\<close>

definition handleTokenRefresh :: "network \<Rightarrow> browser \<Rightarrow> json option \<times> browser" where
  "handleTokenRefresh net st =
     (case getRefreshToken st of
        None \<Rightarrow> (None, st)
      | Some refreshTokenValue \<Rightarrow>
          if refreshTokenValue = [] then (None, st)
          else
            (case refreshToken net (JObj [(''refreshToken'', JStr refreshTokenValue)]) st of
               (Inl e, st1) \<Rightarrow> (None, st1)
             | (Inr result, st1) \<Rightarrow>
                 (case (get_prop (Some result) ''success'', get_prop (Some result) ''data'') of
                    (Inr succ, Inr d) \<Rightarrow>
                      if truthy succ \<and> truthy d then
                        (case (get_prop d ''accessToken'', get_prop d ''refreshToken'') of
                           (Inr a, Inr r) \<Rightarrow> (a, saveTokens a r st1)
                         | _ \<Rightarrow> (None, st1))
                      else (None, st1)
                  | _ \<Rightarrow> (None, st1))))"

definition login_first :: js_error where
  "login_first = Error ''Authentication required. Please login first.''"

definition login_again :: js_error where
  "login_again = Error ''Authentication failed. Please login again.''"

text \<open>
  The second attempt of a call, with the token \<open>handleTokenRefresh\<close> returned: its
  answer is returned as it is.
\<close>

definition retry :: "network \<Rightarrow> request \<Rightarrow> browser \<Rightarrow> (js_error + json) \<times> browser" where
  "retry net rq st =
     (case fetch net rq st of
        (Network_error, st1) \<Rightarrow> (Inl (TypeError ''Failed to fetch''), st1)
      | (Response code b, st1) \<Rightarrow> (response_json b, st1))"

text \<open>
  The lines the three authenticated calls share after a 401:
  \<^verbatim>\<open>const newAccessToken = await handleTokenRefresh(); if (newAccessToken) { ... retry ... }
  throw new Error('Authentication failed. Please login again.')\<close>.
\<close>

definition refresh_and_retry ::
  "network \<Rightarrow> (str \<Rightarrow> request) \<Rightarrow> browser \<Rightarrow> (js_error + json) \<times> browser" where
  "refresh_and_retry net request_with st =
     (case handleTokenRefresh net st of
        (newAccessToken, st2) \<Rightarrow>
          if truthy newAccessToken
          then retry net (request_with (to_String newAccessToken)) st2
          else (Inl login_again, st2))"

definition processPayment :: "network \<Rightarrow> json \<Rightarrow> browser \<Rightarrow> (js_error + json) \<times> browser" where
  "processPayment net request st =
     (case getAccessToken st of
        None \<Rightarrow> (Inl login_first, st)
      | Some accessToken \<Rightarrow>
          if accessToken = [] then (Inl login_first, st)
          else
            (case fetch net (payment_request_with accessToken request) st of
               (Network_error, st1) \<Rightarrow> (Inl (TypeError ''Failed to fetch''), st1)
             | (Response code b, st1) \<Rightarrow>
                 if code = 401 then
                   (case response_json b of
                      Inl e \<Rightarrow> (Inl e, st1)
                    | Inr data' \<Rightarrow>
                        (case get_prop (Some data') ''expired'' of
                           Inl e \<Rightarrow> (Inl e, st1)
                         | Inr expired \<Rightarrow>
                             if truthy expired
                             then refresh_and_retry net (\<lambda>token. payment_request_with token request) st1
                             else (Inl login_again, st1)))
                 else if \<not> ok code \<and> code \<noteq> 400
                 then (Inl (Error ''Payment service unavailable''), st1)
                 else (response_json b, st1)))"

definition getOrders :: "network \<Rightarrow> browser \<Rightarrow> (js_error + json) \<times> browser" where
  "getOrders net st =
     (case getAccessToken st of
        None \<Rightarrow> (Inl login_first, st)
      | Some accessToken \<Rightarrow>
          if accessToken = [] then (Inl login_first, st)
          else
            (case fetch net (orders_request_with accessToken) st of
               (Network_error, st1) \<Rightarrow> (Inl (TypeError ''Failed to fetch''), st1)
             | (Response code b, st1) \<Rightarrow>
                 if code = 401 then refresh_and_retry net orders_request_with st1
                 else (response_json b, st1)))"

definition getOrderById :: "network \<Rightarrow> string \<Rightarrow> browser \<Rightarrow> (js_error + json) \<times> browser" where
  "getOrderById net orderId st =
     (case getAccessToken st of
        None \<Rightarrow> (Inl login_first, st)
      | Some accessToken \<Rightarrow>
          if accessToken = [] then (Inl login_first, st)
          else
            (case fetch net (order_request_with orderId accessToken) st of
               (Network_error, st1) \<Rightarrow> (Inl (TypeError ''Failed to fetch''), st1)
             | (Response code b, st1) \<Rightarrow>
                 if code = 401 then refresh_and_retry net (order_request_with orderId) st1
                 else (response_json b, st1)))"


section \<open>Reading responses, and example runs\<close>

text \<open>The property \<open>k\<close> of a value, \<open>None\<close> when there is none to read.\<close>

definition field :: "json option \<Rightarrow> string \<Rightarrow> json option" where
  "field v k = (case get_prop v k of Inl e \<Rightarrow> None | Inr x \<Rightarrow> x)"

text \<open>
  A customer, a cart of two items at 100 and a reachable gateway that accepts the charge.
  In \<open>example_env\<close> the order service times out; in \<open>example_env_stored\<close> it answers
  with the created order; in \<open>example_env_declined\<close> the gateway refuses the charge.
\<close>

definition example_user :: jwt_payload where
  "example_user =
     \<lparr>userId = 7, email = ''ana@example.com'', iat = 1700000000, exp_claim = 1700003600\<rparr>"

definition example_cart :: json where
  "example_cart =
     JArr [JObj [(''id'', JNum 1), (''name'', JStr (Txt ''X'')),
                 (''price'', JNum 100), (''quantity'', JNum 2)]]"

definition example_request :: payment_request where
  "example_request = \<lparr>cart = Some example_cart, total_amount = Some 200, customerPhone = None\<rparr>"

definition example_env :: payment_env where
  "example_env =
     \<lparr>date_now = 1700000000000,
      math_random = 1 / 2,
      third_party_random = ''K3J9X0P2QA'',
      mpesa = Resolved 201
                (JObj [(''output_TransactionID'', JStr (Txt ''MP1'')),
                       (''output_ConversationID'', JStr (Txt ''c0ffee'')),
                       (''output_ResponseCode'', JStr (Txt ''INS-0'')),
                       (''output_ResponseDesc'', JStr (Txt ''Request processed successfully''))]),
      order_service = Rejected None ''timeout of 5000ms exceeded'',
      email_service = Resolved 200 (JObj [(''message'', JStr (Txt ''Email sent successfully''))]),
      iso_timestamp = ''2023-11-14T22:13:20.000Z'',
      performance = JObj [(''mpesaPayment'', JStr (Txt ''1.20s'')),
                          (''orderCreation'', JStr (Txt ''5.00s'')),
                          (''emailSending'', JStr (Txt ''0.01s'')),
                          (''total'', JStr (Txt ''6.21s''))]\<rparr>"

definition example_env_stored :: payment_env where
  "example_env_stored =
     example_env\<lparr>order_service :=
       Resolved 201
         (JObj [(''success'', JBool True),
                (''message'', JStr (Txt ''Order created successfully'')),
                (''data'', JObj [(''orderId'', JStr (Txt ''ORD1700000001200'')),
                                 (''userId'', JNum 7)])])\<rparr>"

definition example_env_declined :: payment_env where
  "example_env_declined =
     example_env\<lparr>mpesa :=
       Rejected (Some (422, JObj [(''output_ResponseCode'', JStr (Txt ''INS-2006'')),
                                  (''output_ResponseDesc'', JStr (Txt ''Insufficient balance''))]))
                ''Request failed with status code 422''\<rparr>"

definition example_order_data :: json where
  "example_order_data =
     JObj [(''userId'', JNum 7),
           (''transactionId'', JStr (Txt ''MP1'')),
           (''conversationId'', JStr (Txt ''c0ffee'')),
           (''transactionReference'', JStr (Txt ''TXN1700000000000500'')),
           (''thirdPartyReference'', JStr (Txt ''K3J9X0P2QA'')),
           (''amount'', JNum 200),
           (''cart'', example_cart),
           (''customerPhone'', JStr (Txt ''258845760448'')),
           (''timestamp'', JStr (Txt ''2023-11-14T22:13:20.000Z''))]"

definition example_mpesa_payload :: json where
  "example_mpesa_payload =
     JObj [(''input_TransactionReference'', JStr (Txt ''TXN1700000000000500'')),
           (''input_CustomerMSISDN'', JStr (Txt ''258845760448'')),
           (''input_Amount'', JStr [NumText 200]),
           (''input_ThirdPartyReference'', JStr (Txt ''K3J9X0P2QA'')),
           (''input_ServiceProviderCode'', JStr (Txt ''171717''))]"

text \<open>
  A signing secret, the access token and the refresh token a login at clock reading
  1700000000000 issues to the customer, and a token whose payload was altered after
  signing.
\<close>

definition example_secret :: "string option" where
  "example_secret = Some ''s3cret''"

definition example_access_token :: jwt where
  "example_access_token =
     \<lparr>payload = example_user, signature = Hmac ''s3cret'' example_user\<rparr>"

definition example_forged_token :: jwt where
  "example_forged_token =
     \<lparr>payload = example_user\<lparr>userId := 8\<rparr>, signature = Hmac ''s3cret'' example_user\<rparr>"

definition example_refresh_payload :: jwt_payload where
  "example_refresh_payload =
     \<lparr>userId = 7, email = ''ana@example.com'', iat = 1700000000, exp_claim = 1700604800\<rparr>"

definition example_refresh_token :: jwt where
  "example_refresh_token =
     \<lparr>payload = example_refresh_payload, signature = Hmac ''s3cret'' example_refresh_payload\<rparr>"

text \<open>
  A table with one order of the customer and one order of another user.
\<close>

definition example_row :: order_row where
  "example_row =
     \<lparr>order_id = ''ORD1700000001200'', user_id = 7, transaction_id = ''MP1'',
      conversation_id = Some ''c0ffee'', transaction_reference = Some ''TXN1700000000000500'',
      third_party_reference = Some ''K3J9X0P2QA'', amount = 200, cart_col = example_cart,
      customer_phone = Some ''258845760448'', status_col = Some ''paid'',
      created_at = 1700000001200, updated_at = 1700000001200\<rparr>"

definition other_row :: order_row where
  "other_row =
     example_row\<lparr>order_id := ''ORD1700000009000'', user_id := 8, transaction_id := ''MP2''\<rparr>"

definition example_table :: db where
  "example_table = Table [other_row, example_row]"

text \<open>
  The transaction references of a sequence of runs that reach the gateway call, in the
  order of the runs.
\<close>

definition transaction_refs :: "payment_env list \<Rightarrow> string list" where
  "transaction_refs runs =
     map (\<lambda>env. generateTransactionRef (date_now env) (math_random env)) runs"

text \<open>
  The access token that an answer of the refresh endpoint carries for the client: the
  \<open>accessToken\<close> of its \<open>data\<close> when the answer is JSON with a truthy \<open>success\<close> and
  a truthy \<open>data\<close>, and none otherwise.
\<close>

definition refresh_answer_token :: "fetch_result \<Rightarrow> json option" where
  "refresh_answer_token answer =
     (case answer of
        Network_error \<Rightarrow> None
      | Response code None \<Rightarrow> None
      | Response code (Some result) \<Rightarrow>
          if truthy (field (Some result) ''success'') \<and> truthy (field (Some result) ''data'')
          then field (field (Some result) ''data'') ''accessToken''
          else None)"

text \<open>The three authenticated calls, each with the request it sends for a given token.\<close>

definition authenticated_calls ::
  "network \<Rightarrow> json \<Rightarrow> string \<Rightarrow>
   ((browser \<Rightarrow> (js_error + json) \<times> browser) \<times> (str \<Rightarrow> request)) set" where
  "authenticated_calls net request orderId =
     {(processPayment net request, \<lambda>token. payment_request_with token request),
      (getOrders net, orders_request_with),
      (getOrderById net orderId, order_request_with orderId)}"

text \<open>
  \<^verbatim>\<open>await fetch(...)\<close> followed by \<^verbatim>\<open>response.json()\<close>, as a function of what the
  network gives: the rejection of \<open>fetch\<close>, or the parsed body.
\<close>

definition json_of_answer :: "fetch_result \<Rightarrow> js_error + json" where
  "json_of_answer answer =
     (case answer of
        Network_error \<Rightarrow> Inl (TypeError ''Failed to fetch'')
      | Response code b \<Rightarrow> response_json b)"

text \<open>
  A page that holds the customer's two tokens, and a network at clock reading
  1700003700000, when the access token has expired and the refresh token has not: the auth
  service answers with the refresh handler, every other service checks the bearer token
  with \<open>authenticateToken\<close> and then answers with success.
\<close>

definition example_browser :: browser where
  "example_browser =
     \<lparr>window = True,
      localStorage = [''accessToken'' \<mapsto> [Tok example_access_token],
                      ''refreshToken'' \<mapsto> [Tok example_refresh_token]],
      sent = []\<rparr>"

definition example_new_access_token :: jwt where
  "example_new_access_token =
     \<lparr>payload = \<lparr>userId = 7, email = ''ana@example.com'', iat = 1700003700,
                   exp_claim = 1700007300\<rparr>,
      signature = Hmac ''s3cret'' \<lparr>userId = 7, email = ''ana@example.com'', iat = 1700003700,
                                   exp_claim = 1700007300\<rparr>\<rparr>"

definition example_network :: network where
  "example_network n rq =
     (case rq_service rq of
        Auth_api \<Rightarrow>
          (case rq_body rq of
             Some (JObj fs) \<Rightarrow>
               Response (status (refresh_token_route example_secret 1700003700000 fs))
                        (Some (body (refresh_token_route example_secret 1700003700000 fs)))
           | _ \<Rightarrow> Response 400 None)
      | _ \<Rightarrow>
          (case authenticateToken example_secret 1700003700000 (rq_authorization rq) of
             Inl r \<Rightarrow> Response (status r) (Some (body r))
           | Inr user \<Rightarrow> Response 200 (Some (JObj [(''success'', JBool True)]))))"

definition example_payment_body :: json where
  "example_payment_body = JObj [(''cart'', example_cart), (''total'', JNum 200)]"


section \<open>Properties of the payment orchestrator\<close>

subsection \<open>Auxiliary facts\<close>

lemma map_of_map_filter:
  "distinct (map fst fs) \<Longrightarrow>
   map_of (List.map_filter (\<lambda>(k, v). map_option (Pair k) v) fs) k =
     (case map_of fs k of None \<Rightarrow> None | Some v \<Rightarrow> v)"
proof (induction fs)
  case Nil
  then show ?case by (simp add: List.map_filter_simps)
next
  case (Cons f fs)
  obtain k' v' where f: "f = (k', v')" by (cases f)
  have absent: "map_of fs k' = None"
    using Cons.prems f by (simp add: map_of_eq_None_iff)
  show ?case
  proof (cases v')
    case None
    with Cons f absent show ?thesis
      by (auto simp: List.map_filter_simps)
  next
    case (Some j)
    with Cons f show ?thesis
      by (auto simp: List.map_filter_simps)
  qed
qed

lemma field_obj_distinct:
  "distinct (map fst fs) \<Longrightarrow>
   field (Some (obj fs)) k = (case map_of fs k of None \<Rightarrow> None | Some v \<Rightarrow> v)"
  by (simp add: field_def obj_def map_of_map_filter)

lemma get_prop_obj_distinct:
  "distinct (map fst fs) \<Longrightarrow>
   get_prop (Some (obj fs)) k = Inr (case map_of fs k of None \<Rightarrow> None | Some v \<Rightarrow> v)"
  by (simp add: obj_def map_of_map_filter)

lemma processMpesaPayment_calls:
  "\<exists>posted. snd (processMpesaPayment env a ph tr tp) = [Mpesa_call posted]"
  by (simp add: processMpesaPayment_def Let_def split: axios_result.split sum.split)

lemma processMpesaPayment_failure_status:
  "\<not> success (fst (processMpesaPayment env a ph tr tp)) \<Longrightarrow>
   \<exists>sc. statusCode (fst (processMpesaPayment env a ph tr tp)) = Some sc \<and> sc \<noteq> 0"
  by (auto simp: processMpesaPayment_def Let_def
      split: axios_result.splits sum.splits option.splits prod.splits)

lemma createOrder_calls: "snd (createOrder env od) = [Order_call od]"
  by (simp add: createOrder_def split: axios_result.split sum.split)

lemma createOrder_result: "fst (createOrder env od) = fst (createOrder env od')"
  by (simp add: createOrder_def split: axios_result.split sum.split)

lemma handler_on_failure:
  assumes "total_amount req = Some t" and "0 < t"
    and "processMpesaPayment env t (phone_or_default req)
           (generateTransactionRef (date_now env) (math_random env))
           (generateThirdPartyRef env) = (result, gateway_calls)"
    and "\<not> success result"
  shows "payment_handler env user req = (payment_failed result, gateway_calls)"
  using assms by (simp add: payment_handler_def Let_def)

text \<open>
  A run posts to the order service only after a positive total, a gateway result with
  \<open>success\<close> and status 201, and four readable output properties.
\<close>

lemma order_call_run:
  assumes "Order_call orderData \<in> set (snd (payment_handler env user req))"
  shows "\<exists>t result calls1 tid cid rc rd.
           total_amount req = Some t \<and> 0 < t
         \<and> processMpesaPayment env t (phone_or_default req)
              (generateTransactionRef (date_now env) (math_random env))
              (generateThirdPartyRef env) = (result, calls1)
         \<and> success result \<and> statusCode result = Some 201
         \<and> get_prop (data result) ''output_TransactionID'' = Inr tid
         \<and> get_prop (data result) ''output_ConversationID'' = Inr cid
         \<and> get_prop (data result) ''output_ResponseCode'' = Inr rc
         \<and> get_prop (data result) ''output_ResponseDesc'' = Inr rd"
proof (cases "total_amount req")
  case None
  with assms show ?thesis by (simp add: payment_handler_def)
next
  case (Some t)
  show ?thesis
  proof (cases "t \<le> 0")
    case True
    with assms Some show ?thesis by (simp add: payment_handler_def)
  next
    case False
    obtain result calls1 where gw:
      "processMpesaPayment env t (phone_or_default req)
         (generateTransactionRef (date_now env) (math_random env))
         (generateThirdPartyRef env) = (result, calls1)"
      by (cases "processMpesaPayment env t (phone_or_default req)
                   (generateTransactionRef (date_now env) (math_random env))
                   (generateThirdPartyRef env)") auto
    have c1: "\<exists>posted. calls1 = [Mpesa_call posted]"
      using processMpesaPayment_calls [of env t "phone_or_default req"
          "generateTransactionRef (date_now env) (math_random env)" "generateThirdPartyRef env"] gw
      by simp
    show ?thesis
    proof (cases "success result \<and> statusCode result = Some 201")
      case no: False
      have "payment_handler env user req = (payment_failed result, calls1)"
        using Some False gw no by (auto simp: payment_handler_def Let_def)
      with assms c1 show ?thesis by auto
    next
      case yes: True
      show ?thesis
      proof (cases "get_prop (data result) ''output_TransactionID''")
        case (Inl e)
        have "payment_handler env user req = (internal_error e, calls1)"
          using Some False gw yes Inl by (simp add: payment_handler_def Let_def)
        with assms c1 show ?thesis by auto
      next
        case tid: (Inr tid)
        show ?thesis
        proof (cases "get_prop (data result) ''output_ConversationID''")
          case (Inl e)
          have "payment_handler env user req = (internal_error e, calls1)"
            using Some False gw yes tid Inl by (simp add: payment_handler_def Let_def)
          with assms c1 show ?thesis by auto
        next
          case cid: (Inr cid)
          show ?thesis
          proof (cases "get_prop (data result) ''output_ResponseCode''")
            case (Inl e)
            have "payment_handler env user req = (internal_error e, calls1)"
              using Some False gw yes tid cid Inl by (simp add: payment_handler_def Let_def)
            with assms c1 show ?thesis by auto
          next
            case rc: (Inr rc)
            show ?thesis
            proof (cases "get_prop (data result) ''output_ResponseDesc''")
              case (Inl e)
              have "payment_handler env user req = (internal_error e, calls1)"
                using Some False gw yes tid cid rc Inl by (simp add: payment_handler_def Let_def)
              with assms c1 show ?thesis by auto
            next
              case rd: (Inr rd)
              show ?thesis
                using Some False gw yes tid cid rc rd by auto
            qed
          qed
        qed
      qed
    qed
  qed
qed

lemma floor_rat_numeral: "\<lfloor>(numeral a :: rat) / numeral b\<rfloor> = numeral a div numeral b"
  using floor_divide_of_int_eq [of "numeral a" "numeral b", where ?'a = rat] by simp

lemmas double_eval =
  double_times_def to_double_def binary_exponent_def round_half_even_def bit_length.simps
  power_int_minus floor_rat_numeral Let_def

lemma example_ref: "generateTransactionRef 1700000000000 (1 / 2) = ''TXN1700000000000500''"
  by (simp add: generateTransactionRef_def double_eval show_nat.simps digit_def)

lemmas example_defs =
  example_env_def example_env_stored_def example_env_declined_def example_user_def
  example_request_def example_order_data_def example_mpesa_payload_def example_cart_def
  processMpesaPayment_def createOrder_def sendEmail_def phone_or_default_def defaultPhone_def
  formatPhoneNumber_def serviceProviderCode_def generateThirdPartyRef_def example_ref
  obj_def List.map_filter_simps Let_def

lemma example_run_calls:
  "snd (payment_handler example_env example_user example_request) =
     [Mpesa_call example_mpesa_payload,
      Order_call example_order_data,
      Email_call (JObj [(''cart'', example_cart), (''total'', JNum 200),
                        (''customerPhone'', JStr (Txt ''258845760448''))])]"
  by (simp add: payment_handler_def example_defs)

lemma example_stored_run_calls:
  "snd (payment_handler example_env_stored example_user example_request) =
     [Mpesa_call example_mpesa_payload,
      Order_call example_order_data,
      Email_call (JObj [(''cart'', example_cart), (''total'', JNum 200),
                        (''customerPhone'', JStr (Txt ''258845760448''))])]"
  by (simp add: payment_handler_def example_defs)

subsection \<open>Gateway failure\<close>

text \<open>
  Claim C1. In a run that reaches the gateway (the total is positive) and in which
  \<open>processMpesaPayment\<close> returns a result without success, the only outbound call of
  the whole run is the one to the gateway: nothing is posted to the order service or to the
  email service. The response carries the status code of the gateway result, the flag
  \<open>success: false\<close>, and as \<open>error\<close> the error of the gateway result, unchanged.
\<close>

theorem gateway_failure_aborts_saga:
  assumes "total_amount req = Some t" and "0 < t"
    and "processMpesaPayment env t (phone_or_default req)
           (generateTransactionRef (date_now env) (math_random env))
           (generateThirdPartyRef env) = (result, gateway_calls)"
    and "\<not> success result"
  shows "snd (payment_handler env user req) = gateway_calls
       \<and> (\<exists>posted. gateway_calls = [Mpesa_call posted])
       \<and> (\<forall>posted. Order_call posted \<notin> set (snd (payment_handler env user req)))
       \<and> (\<forall>posted. Email_call posted \<notin> set (snd (payment_handler env user req)))
       \<and> statusCode result = Some (status (fst (payment_handler env user req)))
       \<and> get_prop (Some (body (fst (payment_handler env user req)))) ''success''
           = Inr (Some (JBool False))
       \<and> get_prop (Some (body (fst (payment_handler env user req)))) ''error''
           = Inr (error result)"
proof -
  have run: "payment_handler env user req = (payment_failed result, gateway_calls)"
    using assms by (rule handler_on_failure)
  have calls: "\<exists>posted. gateway_calls = [Mpesa_call posted]"
    using processMpesaPayment_calls [of env t "phone_or_default req"
        "generateTransactionRef (date_now env) (math_random env)" "generateThirdPartyRef env"]
      assms(3) by simp
  have code: "\<exists>sc. statusCode result = Some sc \<and> sc \<noteq> 0"
    using processMpesaPayment_failure_status [of env t "phone_or_default req"
        "generateTransactionRef (date_now env) (math_random env)" "generateThirdPartyRef env"]
      assms(3,4) by simp
  have st: "statusCode result = Some (status (payment_failed result))"
    using code by (auto simp: payment_failed_def)
  have succ: "get_prop (Some (body (payment_failed result))) ''success'' = Inr (Some (JBool False))"
    by (simp add: payment_failed_def get_prop_obj_distinct)
  have err: "get_prop (Some (body (payment_failed result))) ''error'' = Inr (error result)"
    by (simp add: payment_failed_def get_prop_obj_distinct)
  show ?thesis
    using run calls st succ err by auto
qed

theorem gateway_failure_aborts_saga_witness:
  "payment_handler example_env_declined example_user example_request =
     (\<lparr>status = 422,
       body = JObj [(''success'', JBool False),
                    (''message'', JStr (Txt ''Payment failed'')),
                    (''error'', JObj [(''output_ResponseCode'', JStr (Txt ''INS-2006'')),
                                      (''output_ResponseDesc'', JStr (Txt ''Insufficient balance''))])]\<rparr>,
      [Mpesa_call example_mpesa_payload])
   \<and> (\<forall>posted. Order_call posted
          \<notin> set (snd (payment_handler example_env_declined example_user example_request)))
   \<and> (\<forall>posted. Email_call posted
          \<notin> set (snd (payment_handler example_env_declined example_user example_request)))"
proof -
  let ?result = "\<lparr>success = False, statusCode = Some 422, data = None,
                   error = Some (JObj [(''output_ResponseCode'', JStr (Txt ''INS-2006'')),
                                       (''output_ResponseDesc'', JStr (Txt ''Insufficient balance''))])\<rparr>"
  have h1: "total_amount example_request = Some 200"
    by (simp add: example_request_def)
  have h2: "(0::rat) < 200" by simp
  have h3: "processMpesaPayment example_env_declined 200 (phone_or_default example_request)
              (generateTransactionRef (date_now example_env_declined) (math_random example_env_declined))
              (generateThirdPartyRef example_env_declined) = (?result, [Mpesa_call example_mpesa_payload])"
    by (simp add: example_defs)
  have h4: "\<not> success ?result" by simp
  have run: "payment_handler example_env_declined example_user example_request =
               (payment_failed ?result, [Mpesa_call example_mpesa_payload])"
    using h1 h3 by (simp add: payment_handler_def Let_def)
  show ?thesis
    using gateway_failure_aborts_saga [OF h1 h2 h3 h4, of example_user] run
    by (simp add: payment_failed_def obj_def List.map_filter_simps)
qed

subsection \<open>Order store failure\<close>

text \<open>
  Claim C2. Take a run that posts \<open>orderData\<close> to the order service, which it does only
  after the gateway call has succeeded. If \<open>createOrder\<close> returns a result without
  success, the response still has status 200 and \<open>success: true\<close>, it has its \<open>data\<close>,
  and \<open>data\<close> has no property \<open>orderId\<close>. If \<open>createOrder\<close> returns a result with
  success whose data has the property \<open>orderId\<close> readable, the response has status 200
  and \<open>success: true\<close>, and the \<open>orderId\<close> of its \<open>data\<close> is that value.
\<close>

theorem order_store_failure_keeps_success:
  assumes made: "Order_call orderData \<in> set (snd (payment_handler env user req))"
    and res: "createOrder env orderData = (orderResult, order_calls)"
  shows "(\<not> success orderResult \<longrightarrow>
            status (fst (payment_handler env user req)) = 200
          \<and> field (Some (body (fst (payment_handler env user req)))) ''success'' = Some (JBool True)
          \<and> field (Some (body (fst (payment_handler env user req)))) ''data'' \<noteq> None
          \<and> field (field (Some (body (fst (payment_handler env user req)))) ''data'') ''orderId''
              = None)
       \<and> (\<forall>orderId. success orderResult
              \<and> get_prop (data orderResult) ''orderId'' = Inr orderId \<longrightarrow>
            status (fst (payment_handler env user req)) = 200
          \<and> field (Some (body (fst (payment_handler env user req)))) ''success'' = Some (JBool True)
          \<and> field (field (Some (body (fst (payment_handler env user req)))) ''data'') ''orderId''
              = orderId)"
proof -
  obtain t result calls1 tid cid rc rd where
    tot: "total_amount req = Some t" "0 < t"
    and gw: "processMpesaPayment env t (phone_or_default req)
              (generateTransactionRef (date_now env) (math_random env))
              (generateThirdPartyRef env) = (result, calls1)"
    and succ: "success result" "statusCode result = Some 201"
    and props: "get_prop (data result) ''output_TransactionID'' = Inr tid"
      "get_prop (data result) ''output_ConversationID'' = Inr cid"
      "get_prop (data result) ''output_ResponseCode'' = Inr rc"
      "get_prop (data result) ''output_ResponseDesc'' = Inr rd"
    using order_call_run [OF made] by blast
  define od where "od = obj [(''userId'', Some (JNum (of_int (userId user)))),
                             (''transactionId'', tid),
                             (''conversationId'', cid),
                             (''transactionReference'',
                              Some (JStr (Txt (generateTransactionRef (date_now env) (math_random env))))),
                             (''thirdPartyReference'', Some (JStr (Txt (generateThirdPartyRef env)))),
                             (''amount'', Some (JNum t)),
                             (''cart'', cart req),
                             (''customerPhone'', Some (JStr (Txt (phone_or_default req)))),
                             (''timestamp'', Some (JStr (Txt (iso_timestamp env))))]"
  have "fst (createOrder env od) = orderResult"
    using createOrder_result [of env od orderData] res by simp
  then have co: "createOrder env od = (orderResult, [Order_call od])"
    using createOrder_calls [of env od] by (metis prod.collapse)
  obtain emailResult calls3 where
    em: "sendEmail env (cart req) t (phone_or_default req) = (emailResult, calls3)"
    by (cases "sendEmail env (cart req) t (phone_or_default req)") auto
  have fail: "status (fst (payment_handler env user req)) = 200
          \<and> field (Some (body (fst (payment_handler env user req)))) ''success'' = Some (JBool True)
          \<and> field (Some (body (fst (payment_handler env user req)))) ''data'' \<noteq> None
          \<and> field (field (Some (body (fst (payment_handler env user req)))) ''data'') ''orderId''
              = None"
    if "\<not> success orderResult"
    using that tot gw succ props co [unfolded od_def] em
    by (simp add: payment_handler_def Let_def field_obj_distinct)
  have good: "status (fst (payment_handler env user req)) = 200
          \<and> field (Some (body (fst (payment_handler env user req)))) ''success'' = Some (JBool True)
          \<and> field (field (Some (body (fst (payment_handler env user req)))) ''data'') ''orderId''
              = orderId"
    if "success orderResult" "get_prop (data orderResult) ''orderId'' = Inr orderId" for orderId
    using that tot gw succ props co [unfolded od_def] em
    by (simp add: payment_handler_def Let_def field_obj_distinct)
  show ?thesis using fail good by blast
qed

theorem order_store_failure_keeps_success_witness:
  "Order_call example_order_data
     \<in> set (snd (payment_handler example_env example_user example_request))
   \<and> \<not> success (fst (createOrder example_env example_order_data))
   \<and> status (fst (payment_handler example_env example_user example_request)) = 200
   \<and> field (Some (body (fst (payment_handler example_env example_user example_request))))
        ''success'' = Some (JBool True)
   \<and> field (field (Some (body (fst (payment_handler example_env example_user example_request))))
        ''data'') ''orderId'' = None
   \<and> Order_call example_order_data
     \<in> set (snd (payment_handler example_env_stored example_user example_request))
   \<and> success (fst (createOrder example_env_stored example_order_data))
   \<and> field (field (Some (body (fst (payment_handler example_env_stored example_user example_request))))
        ''data'') ''orderId'' = Some (JStr (Txt ''ORD1700000001200''))"
proof -
  have made: "Order_call example_order_data
                \<in> set (snd (payment_handler example_env example_user example_request))"
    by (simp add: example_run_calls)
  have made': "Order_call example_order_data
                \<in> set (snd (payment_handler example_env_stored example_user example_request))"
    by (simp add: example_stored_run_calls)
  have res: "createOrder example_env example_order_data =
               (fst (createOrder example_env example_order_data),
                snd (createOrder example_env example_order_data))"
    by simp
  have res': "createOrder example_env_stored example_order_data =
               (fst (createOrder example_env_stored example_order_data),
                snd (createOrder example_env_stored example_order_data))"
    by simp
  have failed: "\<not> success (fst (createOrder example_env example_order_data))"
    by (simp add: createOrder_def example_env_def)
  have stored: "success (fst (createOrder example_env_stored example_order_data))"
    "get_prop (data (fst (createOrder example_env_stored example_order_data))) ''orderId''
       = Inr (Some (JStr (Txt ''ORD1700000001200'')))"
    by (simp_all add: createOrder_def example_env_stored_def example_env_def)
  show ?thesis
    using order_store_failure_keeps_success [OF made res]
      order_store_failure_keeps_success [OF made' res'] made made' failed stored
    by blast
qed

subsection \<open>Validation\<close>

text \<open>
  Claim C3. A request whose total is zero or negative is answered with status 400 and
  \<open>success: false\<close>, and the run makes no outbound call at all: neither the gateway nor
  the order service nor the email service is called.
\<close>

theorem nonpositive_total_rejected:
  assumes "total_amount req = Some t" and "t \<le> 0"
  shows "snd (payment_handler env user req) = []
       \<and> status (fst (payment_handler env user req)) = 400
       \<and> get_prop (Some (body (fst (payment_handler env user req)))) ''success''
           = Inr (Some (JBool False))"
  using assms by (simp add: payment_handler_def invalid_total_def)

theorem nonpositive_total_rejected_witness:
  "total_amount (example_request\<lparr>total_amount := Some 0\<rparr>) = Some 0
   \<and> (0::rat) \<le> 0
   \<and> snd (payment_handler example_env example_user (example_request\<lparr>total_amount := Some 0\<rparr>)) = []
   \<and> status (fst (payment_handler example_env example_user
                    (example_request\<lparr>total_amount := Some 0\<rparr>))) = 400"
  using nonpositive_total_rejected
    [of "example_request\<lparr>total_amount := Some 0\<rparr>" 0 example_env example_user]
  by simp


section \<open>Properties of the bearer tokens\<close>

subsection \<open>Auxiliary facts\<close>

lemma jwt_verify_own:
  "jwt_sign uid em secret life now = Inr token \<Longrightarrow> now' div 1000 < now div 1000 + life \<Longrightarrow>
   jwt_verify (Some (JStr token)) secret now' =
     Inr \<lparr>userId = uid, email = em, iat = now div 1000, exp_claim = now div 1000 + life\<rparr>"
  by (auto simp: jwt_sign_def Let_def split: option.splits if_splits)

lemma jwt_verify_Inr:
  "jwt_verify tok secret now = Inr p \<Longrightarrow>
   \<exists>t k. tok = Some (JStr [Tok t]) \<and> secret = Some k \<and> k \<noteq> [] \<and> p = payload t
       \<and> signature t = Hmac k (payload t) \<and> now div 1000 < exp_claim (payload t)"
  by (cases "(tok, secret, now)" rule: jwt_verify.cases) (auto split: if_splits)

lemma example_verify_refresh:
  "jwt_verify (Some (JStr [Tok example_refresh_token])) example_secret 1700003600000
     = Inr example_refresh_payload"
  by (simp add: example_refresh_token_def example_refresh_payload_def example_secret_def)

lemma example_verify_forged:
  "jwt_verify (Some (JStr [Tok example_forged_token])) example_secret 1700003600000
     = Inl JsonWebTokenError"
  by (simp add: example_forged_token_def example_user_def example_secret_def)

subsection \<open>Expired and invalid tokens\<close>

text \<open>
  Claim C4. Let \<open>tok\<close> be the token of the Authorization header (its second
  space-separated piece, not empty). If \<open>tok\<close> is a token signed under the configured
  secret whose expiry has been reached, \<open>authenticateToken\<close> answers 401 with
  \<open>success: false\<close> and \<open>expired: true\<close>. If \<open>tok\<close> is not a well-formed token, or
  its signature does not match its payload under the secret, the answer is 403 with
  \<open>success: false\<close> and without the property \<open>expired\<close>. The two answers differ in
  status and in the flag, so a client can tell them apart.
\<close>

theorem expired_distinguished_from_invalid:
  assumes "h \<noteq> []" and "at_index (split (Chr CHR '' '') h) 1 = Some tok" and "tok \<noteq> []"
  shows "(\<forall>t k. tok = [Tok t] \<and> secret = Some k \<and> k \<noteq> [] \<and> signature t = Hmac k (payload t)
            \<and> exp_claim (payload t) \<le> now div 1000 \<longrightarrow>
          (\<exists>r. authenticateToken secret now (Some h) = Inl r \<and> status r = 401
             \<and> field (Some (body r)) ''success'' = Some (JBool False)
             \<and> field (Some (body r)) ''expired'' = Some (JBool True)))
       \<and> ((\<forall>t. tok \<noteq> [Tok t])
            \<or> (\<exists>t k. tok = [Tok t] \<and> secret = Some k \<and> signature t \<noteq> Hmac k (payload t)) \<longrightarrow>
          (\<exists>r. authenticateToken secret now (Some h) = Inl r \<and> status r = 403
             \<and> field (Some (body r)) ''success'' = Some (JBool False)
             \<and> field (Some (body r)) ''expired'' = None))"
proof (intro conjI allI impI)
  fix t k
  assume "tok = [Tok t] \<and> secret = Some k \<and> k \<noteq> [] \<and> signature t = Hmac k (payload t)
            \<and> exp_claim (payload t) \<le> now div 1000"
  with assms show "\<exists>r. authenticateToken secret now (Some h) = Inl r \<and> status r = 401
             \<and> field (Some (body r)) ''success'' = Some (JBool False)
             \<and> field (Some (body r)) ''expired'' = Some (JBool True)"
    by (simp add: authenticateToken_def field_def)
next
  assume bad: "(\<forall>t. tok \<noteq> [Tok t])
            \<or> (\<exists>t k. tok = [Tok t] \<and> secret = Some k \<and> signature t \<noteq> Hmac k (payload t))"
  have "jwt_verify (Some (JStr tok)) secret now = Inl JsonWebTokenError"
    using bad by (cases "(Some (JStr tok), secret, now)" rule: jwt_verify.cases) auto
  with assms show "\<exists>r. authenticateToken secret now (Some h) = Inl r \<and> status r = 403
             \<and> field (Some (body r)) ''success'' = Some (JBool False)
             \<and> field (Some (body r)) ''expired'' = None"
    by (simp add: authenticateToken_def field_def)
qed

theorem expired_distinguished_from_invalid_witness:
  "(\<exists>r. authenticateToken example_secret 1700003600000
            (Some (Txt ''Bearer '' @ [Tok example_access_token])) = Inl r
        \<and> status r = 401 \<and> field (Some (body r)) ''expired'' = Some (JBool True))
   \<and> (\<exists>r. authenticateToken example_secret 1700000001000
            (Some (Txt ''Bearer '' @ [Tok example_forged_token])) = Inl r
        \<and> status r = 403 \<and> field (Some (body r)) ''expired'' = None)
   \<and> (\<exists>r. authenticateToken example_secret 1700000001000
            (Some (Txt ''Bearer not-a-token'')) = Inl r
        \<and> status r = 403 \<and> field (Some (body r)) ''expired'' = None)"
proof -
  have a: "Txt ''Bearer '' @ [Tok t] \<noteq> []"
    "at_index (split (Chr CHR '' '') (Txt ''Bearer '' @ [Tok t])) 1 = Some [Tok t]"
    "[Tok t] \<noteq> []" for t
    by (simp_all add: at_index_def)
  have b: "Txt ''Bearer not-a-token'' \<noteq> []"
    "at_index (split (Chr CHR '' '') (Txt ''Bearer not-a-token'')) 1 = Some (Txt ''not-a-token'')"
    "Txt ''not-a-token'' \<noteq> []"
    by (simp_all add: at_index_def)
  have expired: "[Tok example_access_token] = [Tok example_access_token]
      \<and> example_secret = Some ''s3cret'' \<and> ''s3cret'' \<noteq> []
      \<and> signature example_access_token = Hmac ''s3cret'' (payload example_access_token)
      \<and> exp_claim (payload example_access_token) \<le> 1700003600000 div 1000"
    by (simp add: example_access_token_def example_user_def example_secret_def)
  have forged: "\<exists>t k. [Tok example_forged_token] = [Tok t] \<and> example_secret = Some k
      \<and> signature t \<noteq> Hmac k (payload t)"
    by (simp add: example_forged_token_def example_user_def example_secret_def)
  have plain: "\<forall>t. Txt ''not-a-token'' \<noteq> [Tok t]"
    by simp
  show ?thesis
    using expired_distinguished_from_invalid [OF a, of example_access_token example_secret 1700003600000]
      expired_distinguished_from_invalid [OF a, of example_forged_token example_secret 1700000001000]
      expired_distinguished_from_invalid [OF b, of example_secret 1700000001000]
      expired forged plain
    by blast
qed

subsection \<open>Round trip\<close>

text \<open>
  Claim C8. An access token issued for user \<open>u\<close> and email \<open>e\<close> verifies under the
  same secret at every clock reading before its expiry of one hour, in particular at the
  reading of its issuance: \<open>jwt_verify\<close> and \<open>authenticateToken\<close> return a payload whose
  \<open>userId\<close> is \<open>u\<close> and whose \<open>email\<close> is \<open>e\<close>, and neither the expired nor the
  invalid answer.
\<close>

theorem token_round_trip:
  assumes "issueAccessToken secret now u e = Inr token"
    and "now' div 1000 < now div 1000 + 3600"
  shows "\<exists>p. jwt_verify (Some (JStr token)) secret now' = Inr p
           \<and> authenticateToken secret now' (Some (Txt ''Bearer '' @ token)) = Inr p
           \<and> userId p = u \<and> email p = e"
  using assms
  by (auto simp: issueAccessToken_def jwt_sign_def authenticateToken_def at_index_def Let_def
      split: option.splits if_splits)

theorem token_round_trip_witness:
  "issueAccessToken example_secret 1700000000000 7 ''ana@example.com''
     = Inr [Tok example_access_token]
   \<and> jwt_verify (Some (JStr [Tok example_access_token])) example_secret 1700000000000
     = Inr example_user
   \<and> authenticateToken example_secret 1700000000000
       (Some (Txt ''Bearer '' @ [Tok example_access_token])) = Inr example_user"
proof -
  have issued: "issueAccessToken example_secret 1700000000000 7 ''ana@example.com''
                  = Inr [Tok example_access_token]"
    by (simp add: issueAccessToken_def jwt_sign_def example_secret_def example_access_token_def
        example_user_def Let_def)
  have soon: "(1700000000000::nat) div 1000 < 1700000000000 div 1000 + 3600"
    by simp
  have verified: "jwt_verify (Some (JStr [Tok example_access_token])) example_secret 1700000000000
                    = Inr example_user"
    by (simp add: example_secret_def example_access_token_def example_user_def)
  show ?thesis
    using token_round_trip [OF issued soon] issued verified by auto
qed

subsection \<open>Refresh\<close>

text \<open>
  Claim C5. When the refresh token of the request verifies, the refresh handler answers
  200 with a new access token, issued as at login for the \<open>userId\<close> and \<open>email\<close> of
  the refresh token, and these are the claims the new token verifies with; the \<open>data\<close>
  of the answer has no property \<open>refreshToken\<close>. When verification fails, whatever the
  error, the answer is 500 with \<open>success: false\<close> and no \<open>data\<close>. The handler keeps
  no state and the token is not changed: the same request succeeds again at every later
  clock reading before the expiry the refresh token was issued with, and at none from
  that expiry on.
\<close>

theorem refresh_issues_only_access_token:
  "(\<forall>decoded. jwt_verify (map_of req_body ''refreshToken'') secret now = Inr decoded \<longrightarrow>
      (\<exists>accessToken p.
          issueAccessToken secret now (userId decoded) (email decoded) = Inr accessToken
        \<and> refresh_token_route secret now req_body =
            \<lparr>status = 200,
             body = JObj [(''success'', JBool True),
                          (''message'', JStr (Txt ''Token refreshed successfully'')),
                          (''data'', JObj [(''accessToken'', JStr accessToken)])]\<rparr>
        \<and> jwt_verify (Some (JStr accessToken)) secret now = Inr p
        \<and> userId p = userId decoded \<and> email p = email decoded
        \<and> field (field (Some (body (refresh_token_route secret now req_body))) ''data'')
             ''refreshToken'' = None))
   \<and> (\<forall>err. jwt_verify (map_of req_body ''refreshToken'') secret now = Inl err \<longrightarrow>
        status (refresh_token_route secret now req_body) = 500
      \<and> field (Some (body (refresh_token_route secret now req_body))) ''success'' = Some (JBool False)
      \<and> field (Some (body (refresh_token_route secret now req_body))) ''data'' = None)
   \<and> (\<forall>decoded later. jwt_verify (map_of req_body ''refreshToken'') secret now = Inr decoded \<longrightarrow>
        (status (refresh_token_route secret later req_body) = 200)
          = (later div 1000 < exp_claim decoded))"
proof (intro conjI allI impI)
  fix decoded
  assume ok: "jwt_verify (map_of req_body ''refreshToken'') secret now = Inr decoded"
  then obtain t k where k: "secret = Some k" "k \<noteq> []"
    using jwt_verify_Inr by blast
  define p where "p = \<lparr>userId = userId decoded, email = email decoded, iat = now div 1000,
                        exp_claim = now div 1000 + 3600\<rparr>"
  define accessToken where "accessToken = [Tok \<lparr>payload = p, signature = Hmac k p\<rparr>]"
  have sign: "jwt_sign (userId decoded) (email decoded) secret 3600 now = Inr accessToken"
    using k by (simp add: jwt_sign_def accessToken_def p_def Let_def)
  have route: "refresh_token_route secret now req_body =
            \<lparr>status = 200,
             body = JObj [(''success'', JBool True),
                          (''message'', JStr (Txt ''Token refreshed successfully'')),
                          (''data'', JObj [(''accessToken'', JStr accessToken)])]\<rparr>"
    using ok sign by (simp add: refresh_token_route_def Let_def)
  have verify: "jwt_verify (Some (JStr accessToken)) secret now = Inr p"
    using jwt_verify_own [OF sign, of now] by (simp add: p_def)
  have "field (field (Some (body (refresh_token_route secret now req_body))) ''data'')
             ''refreshToken'' = None"
    by (simp add: route field_def)
  with sign route verify
  show "\<exists>accessToken p.
          issueAccessToken secret now (userId decoded) (email decoded) = Inr accessToken
        \<and> refresh_token_route secret now req_body =
            \<lparr>status = 200,
             body = JObj [(''success'', JBool True),
                          (''message'', JStr (Txt ''Token refreshed successfully'')),
                          (''data'', JObj [(''accessToken'', JStr accessToken)])]\<rparr>
        \<and> jwt_verify (Some (JStr accessToken)) secret now = Inr p
        \<and> userId p = userId decoded \<and> email p = email decoded
        \<and> field (field (Some (body (refresh_token_route secret now req_body))) ''data'')
             ''refreshToken'' = None"
    by (auto simp: issueAccessToken_def p_def)
next
  fix err
  assume "jwt_verify (map_of req_body ''refreshToken'') secret now = Inl err"
  then show "status (refresh_token_route secret now req_body) = 500"
    and "field (Some (body (refresh_token_route secret now req_body))) ''success'' = Some (JBool False)"
    and "field (Some (body (refresh_token_route secret now req_body))) ''data'' = None"
    by (simp_all add: refresh_token_route_def Let_def field_def)
next
  fix decoded later
  assume ok: "jwt_verify (map_of req_body ''refreshToken'') secret now = Inr decoded"
  then obtain t k where tk: "map_of req_body ''refreshToken'' = Some (JStr [Tok t])"
      "secret = Some k" "k \<noteq> []" "decoded = payload t" "signature t = Hmac k (payload t)"
    using jwt_verify_Inr by blast
  show "(status (refresh_token_route secret later req_body) = 200)
          = (later div 1000 < exp_claim decoded)"
    using tk by (auto simp: refresh_token_route_def jwt_sign_def Let_def)
qed

theorem refresh_issues_only_access_token_witness:
  "(\<exists>accessToken p.
       refresh_token_route example_secret 1700003600000
           [(''refreshToken'', JStr [Tok example_refresh_token])] =
         \<lparr>status = 200,
          body = JObj [(''success'', JBool True),
                       (''message'', JStr (Txt ''Token refreshed successfully'')),
                       (''data'', JObj [(''accessToken'', JStr accessToken)])]\<rparr>
     \<and> jwt_verify (Some (JStr accessToken)) example_secret 1700003600000 = Inr p
     \<and> userId p = 7 \<and> email p = ''ana@example.com'')
   \<and> status (refresh_token_route example_secret 1700600000000
         [(''refreshToken'', JStr [Tok example_refresh_token])]) = 200
   \<and> status (refresh_token_route example_secret 1700604800000
         [(''refreshToken'', JStr [Tok example_refresh_token])]) \<noteq> 200
   \<and> status (refresh_token_route example_secret 1700003600000
         [(''refreshToken'', JStr [Tok example_forged_token])]) = 500"
proof -
  have ok: "jwt_verify (map_of [(''refreshToken'', JStr [Tok example_refresh_token])] ''refreshToken'')
              example_secret 1700003600000 = Inr example_refresh_payload"
    using example_verify_refresh by simp
  have bad: "jwt_verify (map_of [(''refreshToken'', JStr [Tok example_forged_token])] ''refreshToken'')
              example_secret 1700003600000 = Inl JsonWebTokenError"
    using example_verify_forged by simp
  have claims: "userId example_refresh_payload = 7"
    "email example_refresh_payload = ''ana@example.com''"
    "exp_claim example_refresh_payload = 1700604800"
    by (simp_all add: example_refresh_payload_def)
  have times: "(1700600000000::nat) div 1000 < 1700604800"
    "\<not> (1700604800000::nat) div 1000 < 1700604800"
    by simp_all
  note T = refresh_issues_only_access_token
        [of "[(''refreshToken'', JStr [Tok example_refresh_token])]" example_secret 1700003600000]
  note T' = refresh_issues_only_access_token
        [of "[(''refreshToken'', JStr [Tok example_forged_token])]" example_secret 1700003600000]
  from T [THEN conjunct1, rule_format, OF ok] obtain accessToken p where
    "refresh_token_route example_secret 1700003600000
           [(''refreshToken'', JStr [Tok example_refresh_token])] =
         \<lparr>status = 200,
          body = JObj [(''success'', JBool True),
                       (''message'', JStr (Txt ''Token refreshed successfully'')),
                       (''data'', JObj [(''accessToken'', JStr accessToken)])]\<rparr>"
    "jwt_verify (Some (JStr accessToken)) example_secret 1700003600000 = Inr p"
    "userId p = userId example_refresh_payload" "email p = email example_refresh_payload"
    by (elim exE conjE)
  then have first: "\<exists>accessToken p.
       refresh_token_route example_secret 1700003600000
           [(''refreshToken'', JStr [Tok example_refresh_token])] =
         \<lparr>status = 200,
          body = JObj [(''success'', JBool True),
                       (''message'', JStr (Txt ''Token refreshed successfully'')),
                       (''data'', JObj [(''accessToken'', JStr accessToken)])]\<rparr>
     \<and> jwt_verify (Some (JStr accessToken)) example_secret 1700003600000 = Inr p
     \<and> userId p = 7 \<and> email p = ''ana@example.com''"
    unfolding claims by (intro exI conjI)
  have again: "status (refresh_token_route example_secret 1700600000000
         [(''refreshToken'', JStr [Tok example_refresh_token])]) = 200"
    using T [THEN conjunct2, THEN conjunct2, rule_format, OF ok, of 1700600000000] claims times
    by simp
  have elapsed: "status (refresh_token_route example_secret 1700604800000
         [(''refreshToken'', JStr [Tok example_refresh_token])]) \<noteq> 200"
    using T [THEN conjunct2, THEN conjunct2, rule_format, OF ok, of 1700604800000] claims times
    by simp
  have refused: "status (refresh_token_route example_secret 1700003600000
         [(''refreshToken'', JStr [Tok example_forged_token])]) = 500"
    using T' [THEN conjunct2, THEN conjunct1, rule_format, OF bad] by simp
  show ?thesis
    using first again elapsed refused by (intro conjI)
qed


section \<open>Properties of the order reads\<close>

subsection \<open>Auxiliary facts\<close>

lemma format_order_userId:
  "field (Some (format_order row)) ''userId'' = Some (JNum (of_int (user_id row)))"
  by (simp add: format_order_def field_def)

lemma returned_orders_list:
  assumes "ord \<in> set (returned_orders (get_orders store user))"
  shows "\<exists>tbl row. store = Table tbl \<and> row \<in> set tbl \<and> user_id row = userId user
           \<and> ord = format_order row"
proof (cases store)
  case Connect_failed
  with assms show ?thesis by (simp add: get_orders_def returned_orders_def)
next
  case (Query_failed msg)
  with assms show ?thesis by (simp add: get_orders_def returned_orders_def fetch_failed_def)
next
  case (Table tbl)
  with assms show ?thesis
    by (auto simp: get_orders_def returned_orders_def Let_def)
qed

lemma returned_orders_single:
  assumes "\<And>tbl. store = Table tbl \<Longrightarrow> shown =
             (case filter P tbl of
                [] \<Rightarrow> Some not_found
              | row # rest \<Rightarrow>
                  Some \<lparr>status = 200,
                        body = JObj [(''success'', JBool True), (''data'', format_order row)]\<rparr>)"
    and "store = Connect_failed \<Longrightarrow> shown = None"
    and "\<And>msg. store = Query_failed msg \<Longrightarrow> shown = Some (fetch_failed what msg)"
    and "ord \<in> set (returned_orders shown)"
  shows "\<exists>tbl row. store = Table tbl \<and> row \<in> set tbl \<and> P row \<and> ord = format_order row"
proof (cases store)
  case Connect_failed
  with assms show ?thesis by (simp add: returned_orders_def)
next
  case (Query_failed msg)
  with assms show ?thesis by (simp add: returned_orders_def fetch_failed_def)
next
  case (Table tbl)
  show ?thesis
  proof (cases "filter P tbl")
    case Nil
    with assms Table show ?thesis by (simp add: returned_orders_def not_found_def)
  next
    case (Cons row rest)
    then have "row \<in> set (filter P tbl)" by simp
    then have row: "row \<in> set tbl" "P row" by simp_all
    have "ord = format_order row"
      using assms(1) [OF Table] assms(4) Cons
      by (simp add: returned_orders_def format_order_def)
    with Table row show ?thesis by blast
  qed
qed

lemma returned_orders_by_id:
  assumes "ord \<in> set (returned_orders (get_order_by_id store user orderId))"
  shows "\<exists>tbl row. store = Table tbl \<and> row \<in> set tbl
           \<and> (order_id row = orderId \<and> user_id row = userId user) \<and> ord = format_order row"
  by (rule returned_orders_single [where what = "''Failed to fetch order''", OF _ _ _ assms])
     (simp_all add: get_order_by_id_def)

lemma returned_orders_by_transaction:
  assumes "ord \<in> set (returned_orders (get_order_by_transaction store user transactionId))"
  shows "\<exists>tbl row. store = Table tbl \<and> row \<in> set tbl
           \<and> (transaction_id row = transactionId \<and> user_id row = userId user) \<and> ord = format_order row"
  by (rule returned_orders_single [where what = "''Failed to fetch order''", OF _ _ _ assms])
     (simp_all add: get_order_by_transaction_def)

lemma example_list: "returned_orders (get_orders example_table example_user) = [format_order example_row]"
  by (simp add: get_orders_def returned_orders_def example_table_def example_user_def
      other_row_def example_row_def Let_def)

subsection \<open>Scoping\<close>

text \<open>
  Claim C6. Every order that one of the three read handlers returns (the list, the lookup
  by order id, the lookup by transaction id) is the formatting of a row of the table whose
  \<open>user_id\<close> is the caller's \<open>userId\<close>, and carries that \<open>userId\<close>. When every row
  with the requested order id, or with the requested transaction id, belongs to another
  user, the lookup answers \<open>not_found\<close>, whose status is 404, although the identifier
  exists in the table.
\<close>

theorem order_reads_scoped_to_caller:
  "(\<forall>ord \<in> set (returned_orders (get_orders store user))
           \<union> set (returned_orders (get_order_by_id store user orderId))
           \<union> set (returned_orders (get_order_by_transaction store user transactionId)).
       field (Some ord) ''userId'' = Some (JNum (of_int (userId user)))
     \<and> (\<exists>tbl row. store = Table tbl \<and> row \<in> set tbl \<and> user_id row = userId user
           \<and> ord = format_order row))
   \<and> (\<forall>tbl. store = Table tbl
          \<and> (\<forall>row \<in> set tbl. order_id row = orderId \<longrightarrow> user_id row \<noteq> userId user) \<longrightarrow>
        get_order_by_id store user orderId = Some not_found)
   \<and> (\<forall>tbl. store = Table tbl
          \<and> (\<forall>row \<in> set tbl. transaction_id row = transactionId \<longrightarrow> user_id row \<noteq> userId user) \<longrightarrow>
        get_order_by_transaction store user transactionId = Some not_found)
   \<and> status not_found = 404"
proof (intro conjI ballI allI impI)
  fix ord
  assume "ord \<in> set (returned_orders (get_orders store user))
           \<union> set (returned_orders (get_order_by_id store user orderId))
           \<union> set (returned_orders (get_order_by_transaction store user transactionId))"
  then have own: "\<exists>tbl row. store = Table tbl \<and> row \<in> set tbl \<and> user_id row = userId user
           \<and> ord = format_order row"
    using returned_orders_list [of ord store user]
      returned_orders_by_id [of ord store user orderId]
      returned_orders_by_transaction [of ord store user transactionId]
    by blast
  then show "\<exists>tbl row. store = Table tbl \<and> row \<in> set tbl \<and> user_id row = userId user
           \<and> ord = format_order row" .
  from own show "field (Some ord) ''userId'' = Some (JNum (of_int (userId user)))"
    using format_order_userId by auto
next
  fix tbl
  assume a: "store = Table tbl
          \<and> (\<forall>row \<in> set tbl. order_id row = orderId \<longrightarrow> user_id row \<noteq> userId user)"
  then have "filter (\<lambda>r. order_id r = orderId \<and> user_id r = userId user) tbl = []"
    by (auto simp: filter_empty_conv)
  with a show "get_order_by_id store user orderId = Some not_found"
    by (simp add: get_order_by_id_def)
next
  fix tbl
  assume a: "store = Table tbl
          \<and> (\<forall>row \<in> set tbl. transaction_id row = transactionId \<longrightarrow> user_id row \<noteq> userId user)"
  then have "filter (\<lambda>r. transaction_id r = transactionId \<and> user_id r = userId user) tbl = []"
    by (auto simp: filter_empty_conv)
  with a show "get_order_by_transaction store user transactionId = Some not_found"
    by (simp add: get_order_by_transaction_def)
next
  show "status not_found = 404" by (simp add: not_found_def)
qed

theorem order_reads_scoped_to_caller_witness:
  "returned_orders (get_orders example_table example_user) = [format_order example_row]
   \<and> field (Some (format_order example_row)) ''userId'' = Some (JNum 7)
   \<and> order_id other_row = ''ORD1700000009000''
   \<and> get_order_by_id example_table example_user ''ORD1700000009000'' = Some not_found
   \<and> transaction_id other_row = ''MP2''
   \<and> get_order_by_transaction example_table example_user ''MP2'' = Some not_found"
proof -
  note T = order_reads_scoped_to_caller
             [of example_table example_user "''ORD1700000009000''" "''MP2''"]
  have mine: "format_order example_row \<in> set (returned_orders (get_orders example_table example_user))
           \<union> set (returned_orders (get_order_by_id example_table example_user ''ORD1700000009000''))
           \<union> set (returned_orders (get_order_by_transaction example_table example_user ''MP2''))"
    by (simp add: example_list)
  have uid: "field (Some (format_order example_row)) ''userId'' = Some (JNum 7)"
    using T [THEN conjunct1, rule_format, OF mine, THEN conjunct1]
    by (simp add: example_user_def)
  have foreign_id: "example_table = Table [other_row, example_row]
          \<and> (\<forall>row \<in> set [other_row, example_row].
                order_id row = ''ORD1700000009000'' \<longrightarrow> user_id row \<noteq> userId example_user)"
    by (simp add: example_table_def other_row_def example_row_def example_user_def)
  have foreign_tx: "example_table = Table [other_row, example_row]
          \<and> (\<forall>row \<in> set [other_row, example_row].
                transaction_id row = ''MP2'' \<longrightarrow> user_id row \<noteq> userId example_user)"
    by (simp add: example_table_def other_row_def example_row_def example_user_def)
  have by_id: "get_order_by_id example_table example_user ''ORD1700000009000'' = Some not_found"
    using T [THEN conjunct2, THEN conjunct1, rule_format, OF foreign_id] .
  have by_tx: "get_order_by_transaction example_table example_user ''MP2'' = Some not_found"
    using T [THEN conjunct2, THEN conjunct2, THEN conjunct1, rule_format, OF foreign_tx] .
  have ids: "order_id other_row = ''ORD1700000009000''" "transaction_id other_row = ''MP2''"
    by (simp_all add: other_row_def)
  show ?thesis
    using example_list uid by_id by_tx ids by (intro conjI)
qed


section \<open>Properties of the transaction reference\<close>

subsection \<open>Rounding\<close>

lemma bit_length_bounds:
  "0 < n \<Longrightarrow> 2 ^ (bit_length n - 1) \<le> n \<and> n < 2 ^ bit_length n"
proof (induction n rule: bit_length.induct)
  case (1 n)
  show ?case
  proof (cases "n div 2 = 0")
    case True
    with "1.prems" have "n = 1" by (simp add: div_eq_0_iff)
    then show ?thesis by (simp add: bit_length.simps)
  next
    case False
    then have pos: "0 < n div 2" by simp
    have ih: "2 ^ (bit_length (n div 2) - 1) \<le> n div 2 \<and> n div 2 < 2 ^ bit_length (n div 2)"
      using "1.IH" "1.prems" pos by simp
    have b: "bit_length n = Suc (bit_length (n div 2))"
      using "1.prems" by (subst bit_length.simps) simp
    have bpos: "0 < bit_length (n div 2)"
      using pos by (subst bit_length.simps) simp
    then obtain k where k: "bit_length (n div 2) = Suc k"
      by (cases "bit_length (n div 2)") auto
    have low: "m \<le> n div 2 \<Longrightarrow> 2 * m \<le> n" for m by arith
    have high: "n div 2 < m \<Longrightarrow> n < 2 * m" for m by arith
    have "2 * 2 ^ k \<le> n" using ih k low by simp
    moreover have "n < 2 * 2 ^ Suc k" using ih k high [of "2 ^ Suc k"] by simp
    ultimately show ?thesis by (simp add: b k)
  qed
qed

lemma nat_floor_bounds:
  fixes y :: rat
  assumes "1 \<le> y"
  shows "0 < nat \<lfloor>y\<rfloor>" and "of_nat (nat \<lfloor>y\<rfloor>) \<le> y" and "y < of_nat (nat \<lfloor>y\<rfloor>) + 1"
proof -
  have f: "1 \<le> \<lfloor>y\<rfloor>" using assms by (simp add: le_floor_iff)
  then show "0 < nat \<lfloor>y\<rfloor>" by simp
  have "of_nat (nat \<lfloor>y\<rfloor>) = (of_int \<lfloor>y\<rfloor> :: rat)" using f by simp
  then show "of_nat (nat \<lfloor>y\<rfloor>) \<le> y" and "y < of_nat (nat \<lfloor>y\<rfloor>) + 1"
    using floor_correct [of y] by auto
qed

lemma power_brackets:
  fixes y :: rat
  assumes "1 \<le> y"
  obtains k where "bit_length (nat \<lfloor>y\<rfloor>) = Suc k" and "2 ^ k \<le> y" and "y < 2 ^ Suc k"
proof -
  define n where "n = nat \<lfloor>y\<rfloor>"
  have n: "0 < n" "of_nat n \<le> y" "y < of_nat n + 1"
    using nat_floor_bounds [OF assms] by (simp_all add: n_def)
  obtain k where k: "bit_length n = Suc k"
    using bit_length_bounds [OF n(1)] n(1) by (cases "bit_length n") auto
  have nat_bounds: "2 ^ k \<le> n" "Suc n \<le> 2 ^ Suc k"
    using bit_length_bounds [OF n(1)] k by simp_all
  have "(of_nat (2 ^ k) :: rat) \<le> of_nat n"
    using nat_bounds(1) by (simp only: of_nat_le_iff)
  then have lo: "(2::rat) ^ k \<le> of_nat n" by simp
  have "(of_nat (Suc n) :: rat) \<le> of_nat (2 ^ Suc k)"
    using nat_bounds(2) by (simp only: of_nat_le_iff)
  then have hi: "(of_nat n :: rat) + 1 \<le> 2 ^ Suc k" by simp
  from lo hi n have "2 ^ k \<le> y" "y < 2 ^ Suc k" by linarith+
  with k show ?thesis using that by (simp add: n_def)
qed

text \<open>\<open>binary_exponent\<close> brackets a positive number between two powers of two.\<close>

lemma binary_exponent_bounds:
  assumes "0 < x"
  shows "2 powi binary_exponent x \<le> x \<and> x < 2 powi (binary_exponent x + 1)"
proof (cases "1 \<le> x")
  case True
  obtain k where k: "bit_length (nat \<lfloor>x\<rfloor>) = Suc k" "2 ^ k \<le> x" "x < 2 ^ Suc k"
    using power_brackets [OF True] by blast
  have "binary_exponent x = int k"
    using True k by (simp add: binary_exponent_def)
  moreover have "(2::rat) powi (int k + 1) = 2 ^ Suc k"
    by (simp add: power_int_add)
  ultimately show ?thesis
    using k by simp
next
  case False
  with assms have y: "1 \<le> 1 / x" by simp
  obtain k where k: "bit_length (nat \<lfloor>1 / x\<rfloor>) = Suc k" "2 ^ k \<le> 1 / x" "1 / x < 2 ^ Suc k"
    using power_brackets [OF y] by blast
  have up: "x * 2 ^ k \<le> 1"
    using k(2) assms by (simp add: field_simps)
  have down: "1 < x * 2 ^ Suc k"
    using k(3) assms by (simp add: field_simps)
  show ?thesis
  proof (cases "x * 2 ^ k = 1")
    case exact: True
    have e: "binary_exponent x = - int k"
      using False k exact by (simp add: binary_exponent_def)
    have x: "x = 1 / 2 ^ k" using exact by (simp add: field_simps)
    have p0: "(2::rat) powi (- int k) = 1 / 2 ^ k"
      by (simp add: power_int_minus field_simps)
    have "(2::rat) powi (- int k + 1) = 2 powi (- int k) * 2 powi 1"
      by (rule power_int_add) simp
    then have p1: "(2::rat) powi (- int k + 1) = 2 / 2 ^ k"
      by (simp only: p0) simp
    have "(1::rat) / 2 ^ k < 2 / 2 ^ k"
      by (simp add: divide_strict_right_mono)
    then have "2 powi (- int k) \<le> x \<and> x < 2 powi (- int k + 1)"
      unfolding p0 p1 x by simp
    then show ?thesis
      unfolding e .
  next
    case inexact: False
    have e: "binary_exponent x = - int k - 1"
      using False k inexact by (simp add: binary_exponent_def)
    have e1: "binary_exponent x + 1 = - int k" and e0: "binary_exponent x = - int (Suc k)"
      using e by simp_all
    have "x * 2 ^ k < 1" using up inexact by simp
    then have hi: "x < 2 powi (- int k)"
      by (simp add: power_int_minus field_simps)
    have lo: "2 powi (- int (Suc k)) \<le> x"
      using down by (simp add: power_int_minus field_simps del: power_Suc of_nat_Suc)
    show ?thesis
      unfolding e1 using hi lo e0 by simp
  qed
qed

text \<open>\<open>round_half_even\<close> gives a nearest integer.\<close>

lemma round_half_even_nearest: "\<bar>of_int (round_half_even q) - q\<bar> \<le> 1 / 2"
proof -
  have "of_int \<lfloor>q\<rfloor> \<le> q" and "q < of_int \<lfloor>q\<rfloor> + 1"
    using floor_correct [of q] by auto
  then show ?thesis
    by (auto simp: round_half_even_def Let_def abs_le_iff)
qed

text \<open>
  The product is rounded before its integer part is taken. For the double nearest to 0.563
  the exact product with 1000 is below 563 and the rounded product is 563; one third rounds
  to the double \<open>6004799503160661 / 2\<^sup>5\<^sup>4\<close>.
\<close>

lemma example_rounded_product:
  "(2535526590209589 / 4503599627370496 :: rat) * 1000 < 563"
  "nat \<lfloor>double_times (2535526590209589 / 4503599627370496) 1000\<rfloor> = 563"
  "to_double (1 / 3) = 6004799503160661 / 18014398509481984"
  by (simp_all add: double_eval)

subsection \<open>Distinct references\<close>

text \<open>
  Claim C9 asks that the transaction references of the runs of one process lifetime that
  reach the gateway call be pairwise distinct, which is also what the comment of
  \<open>generateTransactionRef\<close> promises (\<^verbatim>\<open>Generate unique transaction reference\<close>). The
  code does not ensure it. Two runs that read the same millisecond 1700000000000 from the
  clock and draw the doubles 0.5 and 0.5009765625 both generate
  \<^verbatim>\<open>TXN1700000000000500\<close>: only the integer part of a thousand times the random number
  enters the reference, and nothing else tells the runs apart.
\<close>

theorem transaction_refs_collide:
  "transaction_refs [example_env, example_env\<lparr>math_random := 513 / 1024\<rparr>]
     = [''TXN1700000000000500'', ''TXN1700000000000500'']
   \<and> \<not> distinct (transaction_refs [example_env, example_env\<lparr>math_random := 513 / 1024\<rparr>])"
proof -
  have "generateTransactionRef 1700000000000 (513 / 1024) = ''TXN1700000000000500''"
    by (simp add: generateTransactionRef_def double_eval show_nat.simps digit_def)
  then show ?thesis
    by (simp add: transaction_refs_def example_env_def example_ref)
qed

section \<open>Properties of the client's refresh coordinator\<close>

subsection \<open>Auxiliary facts\<close>

lemma handleTokenRefresh_none:
  "getRefreshToken st = None \<or> getRefreshToken st = Some [] \<Longrightarrow>
   handleTokenRefresh net st = (None, st)"
  by (auto simp: handleTokenRefresh_def)

lemma getRefreshToken_window: "getRefreshToken st = Some rt \<Longrightarrow> window st"
  by (simp add: getRefreshToken_def split: if_splits)

lemma getAccessToken_window: "getAccessToken st = Some a \<Longrightarrow> window st"
  by (simp add: getAccessToken_def split: if_splits)

lemma field_truthy_get_prop:
  "truthy (field v k) \<Longrightarrow> \<exists>x. get_prop v k = Inr x \<and> field v k = x"
  by (cases "get_prop v k") (simp_all add: field_def)

lemma truthy_get_prop:
  "truthy v \<Longrightarrow> get_prop v k = Inr (field v k)"
  by (cases "(v, k)" rule: get_prop.cases) (simp_all add: field_def)

lemma handleTokenRefresh_some:
  fixes net :: network and st :: browser and rt :: str
  assumes "getRefreshToken st = Some rt" and "rt \<noteq> []"
  defines "rq \<equiv> refresh_request (JObj [(''refreshToken'', JStr rt)])"
  defines "v \<equiv> refresh_answer_token (net (length (sent st)) rq)"
  shows "fst (handleTokenRefresh net st) = v
       \<and> sent (snd (handleTokenRefresh net st)) = sent st @ [rq]
       \<and> window (snd (handleTokenRefresh net st)) = window st
       \<and> (truthy v \<longrightarrow>
            localStorage (snd (handleTokenRefresh net st)) ''accessToken'' = Some (to_String v))"
proof -
  let ?st1 = "st\<lparr>sent := sent st @ [rq]\<rparr>"
  have w: "window st" using assms(1) by (rule getRefreshToken_window)
  show ?thesis
  proof (cases "net (length (sent st)) rq")
    case Network_error
    with assms show ?thesis
      by (simp add: handleTokenRefresh_def refreshToken_def fetch_def refresh_answer_token_def)
  next
    case (Response code b)
    show ?thesis
    proof (cases b)
      case None
      with Response assms show ?thesis
        by (simp add: handleTokenRefresh_def refreshToken_def fetch_def refresh_answer_token_def
            response_json_def)
    next
      case (Some result)
      have run: "refreshToken net (JObj [(''refreshToken'', JStr rt)]) st = (Inr result, ?st1)"
        using Response Some by (simp add: refreshToken_def fetch_def response_json_def rq_def)
      show ?thesis
      proof (cases "truthy (field (Some result) ''success'') \<and> truthy (field (Some result) ''data'')")
        case True
        then have s: "get_prop (Some result) ''success'' = Inr (field (Some result) ''success'')"
          and d: "get_prop (Some result) ''data'' = Inr (field (Some result) ''data'')"
          and a: "get_prop (field (Some result) ''data'') ''accessToken''
                    = Inr (field (field (Some result) ''data'') ''accessToken'')"
          and r: "get_prop (field (Some result) ''data'') ''refreshToken''
                    = Inr (field (field (Some result) ''data'') ''refreshToken'')"
          using field_truthy_get_prop truthy_get_prop by fastforce+
        have vv: "v = field (field (Some result) ''data'') ''accessToken''"
          using True Response Some by (simp add: v_def refresh_answer_token_def)
        have h: "handleTokenRefresh net st =
                   (v, saveTokens v (field (field (Some result) ''data'') ''refreshToken'') ?st1)"
          using assms(1,2) run s d a r True vv by (simp add: handleTokenRefresh_def)
        show ?thesis
          using w by (simp add: h saveTokens_def)
      next
        case False
        have vv: "v = None"
          using False Response Some by (auto simp: v_def refresh_answer_token_def)
        have h: "handleTokenRefresh net st = (None, ?st1)"
          using assms(1,2) run False
          by (auto simp: handleTokenRefresh_def field_def split: sum.splits)
        show ?thesis
          by (simp add: h vv)
      qed
    qed
  qed
qed

lemma retry_run:
  "retry net rq st = (json_of_answer (net (length (sent st)) rq), st\<lparr>sent := sent st @ [rq]\<rparr>)"
  by (simp add: retry_def fetch_def json_of_answer_def split: fetch_result.split)

lemma refresh_and_retry_none:
  "getRefreshToken st = None \<or> getRefreshToken st = Some [] \<Longrightarrow>
   refresh_and_retry net request_with st = (Inl login_again, st)"
  by (simp add: refresh_and_retry_def handleTokenRefresh_none)

lemma refresh_and_retry_some:
  fixes net :: network and st :: browser and rt :: str
  assumes "getRefreshToken st = Some rt" and "rt \<noteq> []"
  defines "rq \<equiv> refresh_request (JObj [(''refreshToken'', JStr rt)])"
  defines "v \<equiv> refresh_answer_token (net (length (sent st)) rq)"
  shows "(truthy v \<longrightarrow>
            sent (snd (refresh_and_retry net request_with st))
              = sent st @ [rq, request_with (to_String v)]
          \<and> getAccessToken (snd (refresh_and_retry net request_with st)) = Some (to_String v)
          \<and> fst (refresh_and_retry net request_with st)
              = json_of_answer (net (Suc (length (sent st))) (request_with (to_String v))))
       \<and> (\<not> truthy v \<longrightarrow>
            fst (refresh_and_retry net request_with st) = Inl login_again
          \<and> sent (snd (refresh_and_retry net request_with st)) = sent st @ [rq])"
proof -
  obtain tok st2 where h: "handleTokenRefresh net st = (tok, st2)"
    by (cases "handleTokenRefresh net st") auto
  have w: "window st" using assms(1) by (rule getRefreshToken_window)
  have facts: "tok = v" "sent st2 = sent st @ [rq]" "window st2 = window st"
    "truthy v \<longrightarrow> localStorage st2 ''accessToken'' = Some (to_String v)"
    using handleTokenRefresh_some [OF assms(1,2), of net] h by (simp_all add: rq_def v_def)
  show ?thesis
    using facts w by (simp add: refresh_and_retry_def h retry_run getAccessToken_def)
qed

lemma first_call_expired:
  assumes "(call, request_with) \<in> authenticated_calls net request orderId"
    and "getAccessToken st = Some a" and "a \<noteq> []"
    and "net (length (sent st)) (request_with a) = Response 401 (Some d)"
    and "truthy (field (Some d) ''expired'')"
  shows "call st = refresh_and_retry net request_with (st\<lparr>sent := sent st @ [request_with a]\<rparr>)"
proof -
  have e: "get_prop (Some d) ''expired'' = Inr (field (Some d) ''expired'')"
    using assms(5) field_truthy_get_prop by fastforce
  from assms(1) consider
      "call = processPayment net request" "request_with = (\<lambda>token. payment_request_with token request)"
    | "call = getOrders net" "request_with = orders_request_with"
    | "call = getOrderById net orderId" "request_with = order_request_with orderId"
    by (auto simp: authenticated_calls_def)
  then show ?thesis
  proof cases
    case 1
    with assms(2-5) e show ?thesis
      by (simp add: processPayment_def fetch_def response_json_def)
  next
    case 2
    with assms(2-4) show ?thesis
      by (simp add: getOrders_def fetch_def)
  next
    case 3
    with assms(2-4) show ?thesis
      by (simp add: getOrderById_def fetch_def)
  qed
qed

lemma handleTokenRefresh_sent:
  "\<exists>extra. sent (snd (handleTokenRefresh net st)) = sent st @ extra
     \<and> length extra \<le> 1 \<and> (\<forall>rq \<in> set extra. rq_service rq = Auth_api)"
proof (cases "getRefreshToken st = None \<or> getRefreshToken st = Some []")
  case True
  then show ?thesis by (simp add: handleTokenRefresh_none)
next
  case False
  then obtain rt where rt: "getRefreshToken st = Some rt" "rt \<noteq> []" by auto
  have "sent (snd (handleTokenRefresh net st))
          = sent st @ [refresh_request (JObj [(''refreshToken'', JStr rt)])]"
    using handleTokenRefresh_some [OF rt, of net] by simp
  then show ?thesis by (simp add: refresh_request_def)
qed

lemma refresh_and_retry_sent:
  assumes "\<And>token. rq_service (request_with token) \<noteq> Auth_api"
  shows "\<exists>extra. sent (snd (refresh_and_retry net request_with st)) = sent st @ extra
           \<and> length (filter (\<lambda>rq. rq_service rq \<noteq> Auth_api) extra) \<le> 1"
proof -
  obtain tok st2 where h: "handleTokenRefresh net st = (tok, st2)"
    by (cases "handleTokenRefresh net st") auto
  obtain extra where extra: "sent st2 = sent st @ extra" "\<forall>rq \<in> set extra. rq_service rq = Auth_api"
    using handleTokenRefresh_sent [of net st] h by auto
  then have none: "filter (\<lambda>rq. rq_service rq \<noteq> Auth_api) extra = []"
    by (simp add: filter_empty_conv)
  show ?thesis
  proof (cases "truthy tok")
    case True
    then have "sent (snd (refresh_and_retry net request_with st))
                 = sent st @ (extra @ [request_with (to_String tok)])"
      using extra by (simp add: refresh_and_retry_def h retry_run)
    moreover have "length (filter (\<lambda>rq. rq_service rq \<noteq> Auth_api)
                     (extra @ [request_with (to_String tok)])) \<le> 1"
      using none by simp
    ultimately show ?thesis by blast
  next
    case False
    then have "sent (snd (refresh_and_retry net request_with st)) = sent st @ extra"
      using extra by (simp add: refresh_and_retry_def h)
    with none show ?thesis by force
  qed
qed

lemma call_sent:
  assumes "(call, request_with) \<in> authenticated_calls net request orderId"
  shows "\<exists>extra. sent (snd (call st)) = sent st @ extra
           \<and> length (filter (\<lambda>rq. rq_service rq \<noteq> Auth_api) extra) \<le> 2"
proof -
  have svc: "rq_service (request_with token) \<noteq> Auth_api" for token
    using assms
    by (auto simp: authenticated_calls_def payment_request_with_def orders_request_with_def
        order_request_with_def)
  have step: "\<exists>extra. sent (snd (refresh_and_retry net request_with
                                   (st\<lparr>sent := sent st @ [request_with a]\<rparr>))) = sent st @ extra
           \<and> length (filter (\<lambda>rq. rq_service rq \<noteq> Auth_api) extra) \<le> 2" for a
  proof -
    obtain extra where "sent (snd (refresh_and_retry net request_with
                                   (st\<lparr>sent := sent st @ [request_with a]\<rparr>)))
                          = (sent st @ [request_with a]) @ extra"
      and "length (filter (\<lambda>rq. rq_service rq \<noteq> Auth_api) extra) \<le> 1"
      using refresh_and_retry_sent [of request_with net "st\<lparr>sent := sent st @ [request_with a]\<rparr>"] svc
      by auto
    then have "sent (snd (refresh_and_retry net request_with
                                   (st\<lparr>sent := sent st @ [request_with a]\<rparr>)))
                          = sent st @ (request_with a # extra)"
      and "length (filter (\<lambda>rq. rq_service rq \<noteq> Auth_api) (request_with a # extra)) \<le> 2"
      using svc by simp_all
    then show ?thesis by blast
  qed
  have one: "\<exists>extra. sent st @ [rq] = sent st @ extra
           \<and> length (filter (\<lambda>rq. rq_service rq \<noteq> Auth_api) extra) \<le> 2" for rq
    by (rule exI [of _ "[rq]"]) simp
  have zero: "\<exists>extra. sent st = sent st @ extra
           \<and> length (filter (\<lambda>rq. rq_service rq \<noteq> Auth_api) extra) \<le> 2"
    by (rule exI [of _ "[]"]) simp
  from assms consider
      "call = processPayment net request" "request_with = (\<lambda>token. payment_request_with token request)"
    | "call = getOrders net" "request_with = orders_request_with"
    | "call = getOrderById net orderId" "request_with = order_request_with orderId"
    by (auto simp: authenticated_calls_def)
  then show ?thesis
  proof cases
    case 1
    show ?thesis
      unfolding 1 processPayment_def fetch_def
      using step [unfolded 1] one zero
      by (simp split: option.split fetch_result.split sum.split)
  next
    case 2
    show ?thesis
      unfolding 2 getOrders_def fetch_def
      using step [unfolded 2] one zero
      by (simp split: option.split fetch_result.split)
  next
    case 3
    show ?thesis
      unfolding 3 getOrderById_def fetch_def
      using step [unfolded 3] one zero
      by (simp split: option.split fetch_result.split)
  qed
qed

lemmas example_client_defs =
  example_browser_def example_network_def example_payment_body_def example_secret_def
  example_access_token_def example_refresh_token_def example_new_access_token_def
  example_forged_token_def example_user_def example_refresh_payload_def
  payment_request_with_def refresh_request_def authenticateToken_def at_index_def
  refresh_token_route_def jwt_sign_def getAccessToken_def getRefreshToken_def
  refresh_answer_token_def json_of_answer_def response_json_def field_def to_String_def Let_def

lemma example_first_answer:
  "example_network 0 (payment_request_with [Tok example_access_token] example_payment_body) =
     Response 401 (Some (JObj [(''success'', JBool False),
                               (''message'', JStr (Txt ''Access token expired'')),
                               (''expired'', JBool True)]))"
  by (simp add: example_client_defs)

lemma example_refresh_answer:
  "refresh_answer_token
     (example_network 1 (refresh_request (JObj [(''refreshToken'', JStr [Tok example_refresh_token])])))
     = Some (JStr [Tok example_new_access_token])"
  by (simp add: example_client_defs)

lemma example_forged_answer:
  "refresh_answer_token
     (example_network 1 (refresh_request (JObj [(''refreshToken'', JStr [Tok example_forged_token])])))
     = None"
  by (simp add: example_client_defs)

lemma example_retry_answer:
  "json_of_answer
     (example_network (Suc (Suc 0))
        (payment_request_with [Tok example_new_access_token] example_payment_body))
     = Inr (JObj [(''success'', JBool True)])"
  by (simp add: example_client_defs)

lemma refresh_token_route_200:
  assumes "status (refresh_token_route secret now req_body) = 200"
  shows "\<exists>t accessToken.
           map_of req_body ''refreshToken'' = Some (JStr [Tok t])
         \<and> body (refresh_token_route secret now req_body) =
             JObj [(''success'', JBool True),
                   (''message'', JStr (Txt ''Token refreshed successfully'')),
                   (''data'', JObj [(''accessToken'', JStr [Tok accessToken])])]"
proof (cases "jwt_verify (map_of req_body ''refreshToken'') secret now")
  case (Inl err)
  with assms show ?thesis
    by (simp add: refresh_token_route_def Let_def)
next
  case (Inr decoded)
  then obtain t k where tk: "map_of req_body ''refreshToken'' = Some (JStr [Tok t])"
    "secret = Some k" "k \<noteq> []"
    using jwt_verify_Inr by blast
  with Inr show ?thesis
    by (simp add: refresh_token_route_def jwt_sign_def Let_def)
qed

subsection \<open>Refresh and retry\<close>

text \<open>
  Claim C7. Take one of the three authenticated calls of the client (the payment, the
  order list, the order lookup) whose first request, sent with the stored access token, is
  answered 401 with a truthy \<open>expired\<close>. If a refresh token is stored and the refresh
  endpoint answers with an access token, the call sends exactly three requests: the
  original one, the refresh request with the stored refresh token, and the original one
  again with the new token; the new token is then the stored access token and the call
  returns what the second attempt gives. If no refresh token is stored, the call sends
  nothing more and throws the authentication failure. If the refresh endpoint gives no
  access token (the network fails, the answer is not JSON, or it lacks a truthy
  \<open>success\<close>, \<open>data\<close> or \<open>accessToken\<close>), the call throws the authentication failure
  after the refresh request, without a second attempt. In every execution of these calls,
  whatever the answers, at most two of the requests sent go to the called service: the
  original request and at most one retry.
\<close>

theorem refresh_coordinator_retries_once:
  assumes "(call, request_with) \<in> authenticated_calls net request orderId"
  shows "(\<forall>a d. getAccessToken st = Some a \<and> a \<noteq> []
            \<and> net (length (sent st)) (request_with a) = Response 401 (Some d)
            \<and> truthy (field (Some d) ''expired'') \<longrightarrow>
          (\<forall>rt v. getRefreshToken st = Some rt \<and> rt \<noteq> []
              \<and> v = refresh_answer_token
                      (net (Suc (length (sent st))) (refresh_request (JObj [(''refreshToken'', JStr rt)])))
              \<and> truthy v \<longrightarrow>
               sent (snd (call st))
                 = sent st @ [request_with a,
                              refresh_request (JObj [(''refreshToken'', JStr rt)]),
                              request_with (to_String v)]
             \<and> getAccessToken (snd (call st)) = Some (to_String v)
             \<and> fst (call st)
                 = json_of_answer (net (Suc (Suc (length (sent st)))) (request_with (to_String v))))
        \<and> (getRefreshToken st = None \<or> getRefreshToken st = Some [] \<longrightarrow>
               fst (call st) = Inl login_again
             \<and> sent (snd (call st)) = sent st @ [request_with a])
        \<and> (\<forall>rt. getRefreshToken st = Some rt \<and> rt \<noteq> []
              \<and> \<not> truthy (refresh_answer_token
                      (net (Suc (length (sent st))) (refresh_request (JObj [(''refreshToken'', JStr rt)])))) \<longrightarrow>
               fst (call st) = Inl login_again
             \<and> sent (snd (call st))
                 = sent st @ [request_with a, refresh_request (JObj [(''refreshToken'', JStr rt)])]))
       \<and> (\<exists>extra. sent (snd (call st)) = sent st @ extra
             \<and> length (filter (\<lambda>rq. rq_service rq \<noteq> Auth_api) extra) \<le> 2)"
proof (intro conjI allI impI)
  show "\<exists>extra. sent (snd (call st)) = sent st @ extra
             \<and> length (filter (\<lambda>rq. rq_service rq \<noteq> Auth_api) extra) \<le> 2"
    using assms by (rule call_sent)
next
  fix a d
  assume first: "getAccessToken st = Some a \<and> a \<noteq> []
            \<and> net (length (sent st)) (request_with a) = Response 401 (Some d)
            \<and> truthy (field (Some d) ''expired'')"
  let ?st1 = "st\<lparr>sent := sent st @ [request_with a]\<rparr>"
  have run: "call st = refresh_and_retry net request_with ?st1"
    using first_call_expired [OF assms, of st a d] first by simp
  have same: "getRefreshToken ?st1 = getRefreshToken st" "length (sent ?st1) = Suc (length (sent st))"
    by (simp_all add: getRefreshToken_def)
  {
    fix rt v
    assume held: "getRefreshToken st = Some rt \<and> rt \<noteq> []
              \<and> v = refresh_answer_token
                      (net (Suc (length (sent st))) (refresh_request (JObj [(''refreshToken'', JStr rt)])))
              \<and> truthy v"
    then have rt: "getRefreshToken ?st1 = Some rt" "rt \<noteq> []"
      using same by simp_all
    show "sent (snd (call st))
                 = sent st @ [request_with a,
                              refresh_request (JObj [(''refreshToken'', JStr rt)]),
                              request_with (to_String v)]"
      and "getAccessToken (snd (call st)) = Some (to_String v)"
      and "fst (call st)
                 = json_of_answer (net (Suc (Suc (length (sent st)))) (request_with (to_String v)))"
      using refresh_and_retry_some [OF rt, of net request_with] held
      by (auto simp: run)
  }
  {
    assume "getRefreshToken st = None \<or> getRefreshToken st = Some []"
    then have "getRefreshToken ?st1 = None \<or> getRefreshToken ?st1 = Some []"
      using same by simp
    then show "fst (call st) = Inl login_again" and "sent (snd (call st)) = sent st @ [request_with a]"
      by (simp_all add: run refresh_and_retry_none)
  }
  {
    fix rt
    assume held: "getRefreshToken st = Some rt \<and> rt \<noteq> []
              \<and> \<not> truthy (refresh_answer_token
                      (net (Suc (length (sent st))) (refresh_request (JObj [(''refreshToken'', JStr rt)]))))"
    then have rt: "getRefreshToken ?st1 = Some rt" "rt \<noteq> []"
      using same by simp_all
    show "fst (call st) = Inl login_again"
      and "sent (snd (call st))
                 = sent st @ [request_with a, refresh_request (JObj [(''refreshToken'', JStr rt)])]"
      using refresh_and_retry_some [OF rt, of net request_with] held
      by (auto simp: run)
  }
qed

theorem refresh_coordinator_retries_once_witness:
  "fst (processPayment example_network example_payment_body example_browser)
     = Inr (JObj [(''success'', JBool True)])
   \<and> sent (snd (processPayment example_network example_payment_body example_browser))
     = [payment_request_with [Tok example_access_token] example_payment_body,
        refresh_request (JObj [(''refreshToken'', JStr [Tok example_refresh_token])]),
        payment_request_with [Tok example_new_access_token] example_payment_body]
   \<and> getAccessToken (snd (processPayment example_network example_payment_body example_browser))
     = Some [Tok example_new_access_token]
   \<and> fst (processPayment example_network example_payment_body
            (example_browser\<lparr>localStorage := (localStorage example_browser)(''refreshToken'' := None)\<rparr>))
     = Inl login_again
   \<and> sent (snd (processPayment example_network example_payment_body
            (example_browser\<lparr>localStorage := (localStorage example_browser)(''refreshToken'' := None)\<rparr>)))
     = [payment_request_with [Tok example_access_token] example_payment_body]
   \<and> fst (processPayment example_network example_payment_body
            (example_browser\<lparr>localStorage :=
               (localStorage example_browser)(''refreshToken'' \<mapsto> [Tok example_forged_token])\<rparr>))
     = Inl login_again
   \<and> sent (snd (processPayment example_network example_payment_body
            (example_browser\<lparr>localStorage :=
               (localStorage example_browser)(''refreshToken'' \<mapsto> [Tok example_forged_token])\<rparr>)))
     = [payment_request_with [Tok example_access_token] example_payment_body,
        refresh_request (JObj [(''refreshToken'', JStr [Tok example_forged_token])])]"
proof -
  let ?call = "processPayment example_network example_payment_body"
  let ?with = "\<lambda>token. payment_request_with token example_payment_body"
  let ?expired = "JObj [(''success'', JBool False),
                        (''message'', JStr (Txt ''Access token expired'')),
                        (''expired'', JBool True)]"
  let ?none = "example_browser\<lparr>localStorage := (localStorage example_browser)(''refreshToken'' := None)\<rparr>"
  let ?forged = "example_browser\<lparr>localStorage :=
               (localStorage example_browser)(''refreshToken'' \<mapsto> [Tok example_forged_token])\<rparr>"
  have mem: "(?call, ?with) \<in> authenticated_calls example_network example_payment_body ''ORD1''"
    by (simp add: authenticated_calls_def)
  have first: "getAccessToken st = Some [Tok example_access_token] \<and> [Tok example_access_token] \<noteq> []
      \<and> example_network (length (sent st)) (?with [Tok example_access_token]) = Response 401 (Some ?expired)
      \<and> truthy (field (Some ?expired) ''expired'')"
    if "st = example_browser \<or> st = ?none \<or> st = ?forged" for st
    using that example_first_answer
    by (auto simp: example_browser_def getAccessToken_def field_def)
  have first1: "getAccessToken example_browser = Some [Tok example_access_token]
      \<and> [Tok example_access_token] \<noteq> []
      \<and> example_network (length (sent example_browser)) (?with [Tok example_access_token])
          = Response 401 (Some ?expired)
      \<and> truthy (field (Some ?expired) ''expired'')"
    by (rule first) simp
  have first2: "getAccessToken ?none = Some [Tok example_access_token]
      \<and> [Tok example_access_token] \<noteq> []
      \<and> example_network (length (sent ?none)) (?with [Tok example_access_token])
          = Response 401 (Some ?expired)
      \<and> truthy (field (Some ?expired) ''expired'')"
    by (rule first) simp
  have first3: "getAccessToken ?forged = Some [Tok example_access_token]
      \<and> [Tok example_access_token] \<noteq> []
      \<and> example_network (length (sent ?forged)) (?with [Tok example_access_token])
          = Response 401 (Some ?expired)
      \<and> truthy (field (Some ?expired) ''expired'')"
    by (rule first) simp
  have held: "getRefreshToken example_browser = Some [Tok example_refresh_token]
      \<and> [Tok example_refresh_token] \<noteq> []
      \<and> Some (JStr [Tok example_new_access_token])
          = refresh_answer_token (example_network (Suc (length (sent example_browser)))
              (refresh_request (JObj [(''refreshToken'', JStr [Tok example_refresh_token])])))
      \<and> truthy (Some (JStr [Tok example_new_access_token]))"
    using example_refresh_answer by (simp add: example_browser_def getRefreshToken_def)
  have absent: "getRefreshToken ?none = None \<or> getRefreshToken ?none = Some []"
    by (simp add: example_browser_def getRefreshToken_def)
  have refused: "getRefreshToken ?forged = Some [Tok example_forged_token]
      \<and> [Tok example_forged_token] \<noteq> []
      \<and> \<not> truthy (refresh_answer_token (example_network (Suc (length (sent ?forged)))
              (refresh_request (JObj [(''refreshToken'', JStr [Tok example_forged_token])]))))"
    using example_forged_answer by (simp add: example_browser_def getRefreshToken_def)
  note T = refresh_coordinator_retries_once [OF mem, THEN conjunct1, rule_format]
  have a: "sent (snd (?call example_browser))
             = sent example_browser @ [?with [Tok example_access_token],
                  refresh_request (JObj [(''refreshToken'', JStr [Tok example_refresh_token])]),
                  ?with (to_String (Some (JStr [Tok example_new_access_token])))]
         \<and> getAccessToken (snd (?call example_browser))
             = Some (to_String (Some (JStr [Tok example_new_access_token])))
         \<and> fst (?call example_browser)
             = json_of_answer (example_network (Suc (Suc (length (sent example_browser))))
                 (?with (to_String (Some (JStr [Tok example_new_access_token])))))"
    using T [OF first1, THEN conjunct1, rule_format, OF held] by simp
  have b: "fst (?call ?none) = Inl login_again
         \<and> sent (snd (?call ?none)) = sent ?none @ [?with [Tok example_access_token]]"
    using T [OF first2, THEN conjunct2, THEN conjunct1, rule_format, OF absent] by simp
  have c: "fst (?call ?forged) = Inl login_again
         \<and> sent (snd (?call ?forged)) = sent ?forged @ [?with [Tok example_access_token],
               refresh_request (JObj [(''refreshToken'', JStr [Tok example_forged_token])])]"
    using T [OF first3, THEN conjunct2, THEN conjunct2, rule_format, OF refused] by simp
  show ?thesis
    using a b c example_retry_answer
    by (simp add: to_String_def example_browser_def)
qed

subsection \<open>The stored refresh token after a refresh\<close>

text \<open>
  Claim C10. Let the refresh endpoint answer the client's refresh request as the handler
  of the auth service does, with success. Then \<open>handleTokenRefresh\<close> returns the
  new access token and writes both storage slots from the answer, whose \<open>data\<close> has an
  \<open>accessToken\<close> and no \<open>refreshToken\<close>: \<open>saveTokens\<close> receives \<^verbatim>\<open>undefined\<close> as
  refresh token, and what the storage then holds in that slot is the string conversion of
  \<^verbatim>\<open>undefined\<close>, not the original refresh token. A further refresh cycle from that
  state sends this value, and not the original token, to the refresh endpoint, whose
  handler answers it with 500 under every secret and at every clock reading.
\<close>

theorem refresh_overwrites_refresh_token:
  fixes net :: network and st :: browser and rt :: str and secret :: "string option" and now :: nat
  defines "rq \<equiv> refresh_request (JObj [(''refreshToken'', JStr rt)])"
  defines "answer \<equiv> refresh_token_route secret now [(''refreshToken'', JStr rt)]"
  defines "st' \<equiv> snd (handleTokenRefresh net st)"
  assumes held: "getRefreshToken st = Some rt"
    and served: "net (length (sent st)) rq = Response (status answer) (Some (body answer))"
    and refreshed: "status answer = 200"
  shows "\<exists>accessToken.
           fst (handleTokenRefresh net st) = Some (JStr accessToken)
         \<and> field (field (Some (body answer)) ''data'') ''accessToken'' = Some (JStr accessToken)
         \<and> field (field (Some (body answer)) ''data'') ''refreshToken'' = None
         \<and> st' = saveTokens (Some (JStr accessToken)) None (st\<lparr>sent := sent st @ [rq]\<rparr>)
         \<and> getAccessToken st' = Some accessToken
         \<and> getRefreshToken st' = Some (to_String None)
         \<and> to_String None = Txt ''undefined''
         \<and> getRefreshToken st' \<noteq> Some rt
         \<and> (\<forall>net'. sent (snd (handleTokenRefresh net' st'))
                = sent st' @ [refresh_request (JObj [(''refreshToken'', JStr (Txt ''undefined''))])])
         \<and> refresh_request (JObj [(''refreshToken'', JStr (Txt ''undefined''))]) \<noteq> rq
         \<and> (\<forall>secret' now'.
               status (refresh_token_route secret' now' [(''refreshToken'', JStr (Txt ''undefined''))])
                 = 500)"
proof -
  obtain t new where t: "rt = [Tok t]"
    and b: "body answer = JObj [(''success'', JBool True),
                   (''message'', JStr (Txt ''Token refreshed successfully'')),
                   (''data'', JObj [(''accessToken'', JStr [Tok new])])]"
    using refresh_token_route_200 [of secret now "[(''refreshToken'', JStr rt)]"] refreshed
    by (auto simp: answer_def)
  have w: "window st" using held by (rule getRefreshToken_window)
  have run: "handleTokenRefresh net st =
               (Some (JStr [Tok new]),
                saveTokens (Some (JStr [Tok new])) None (st\<lparr>sent := sent st @ [rq]\<rparr>))"
    using held t served b refreshed
    by (simp add: handleTokenRefresh_def refreshToken_def fetch_def response_json_def rq_def)
  have stored: "getRefreshToken st' = Some (Txt ''undefined'')" "getAccessToken st' = Some [Tok new]"
    using w by (simp_all add: st'_def run saveTokens_def getRefreshToken_def getAccessToken_def
        to_String_def)
  have "sent (snd (handleTokenRefresh net' st'))
          = sent st' @ [refresh_request (JObj [(''refreshToken'', JStr (Txt ''undefined''))])]" for net'
    using handleTokenRefresh_some [OF stored(1), of net'] by simp
  moreover have "refresh_request (JObj [(''refreshToken'', JStr (Txt ''undefined''))]) \<noteq> rq"
    using t by (simp add: rq_def refresh_request_def)
  moreover have "status (refresh_token_route secret' now'
                           [(''refreshToken'', JStr (Txt ''undefined''))]) = 500" for secret' now'
    by (simp add: refresh_token_route_def)
  ultimately show ?thesis
    using run stored b t by (simp add: st'_def to_String_def field_def)
qed

theorem refresh_overwrites_refresh_token_witness:
  "getRefreshToken example_browser = Some [Tok example_refresh_token]
   \<and> status (refresh_token_route example_secret 1700003700000
               [(''refreshToken'', JStr [Tok example_refresh_token])]) = 200
   \<and> getRefreshToken (snd (handleTokenRefresh example_network example_browser))
       = Some (Txt ''undefined'')
   \<and> getRefreshToken (snd (handleTokenRefresh example_network example_browser))
       \<noteq> Some [Tok example_refresh_token]"
proof -
  have held: "getRefreshToken example_browser = Some [Tok example_refresh_token]"
    by (simp add: example_browser_def getRefreshToken_def)
  have served: "example_network (length (sent example_browser))
                  (refresh_request (JObj [(''refreshToken'', JStr [Tok example_refresh_token])]))
      = Response (status (refresh_token_route example_secret 1700003700000
                            [(''refreshToken'', JStr [Tok example_refresh_token])]))
                 (Some (body (refresh_token_route example_secret 1700003700000
                            [(''refreshToken'', JStr [Tok example_refresh_token])])))"
    by (simp add: example_network_def refresh_request_def)
  have refreshed: "status (refresh_token_route example_secret 1700003700000
               [(''refreshToken'', JStr [Tok example_refresh_token])]) = 200"
    by (simp add: refresh_token_route_def jwt_sign_def example_secret_def example_refresh_token_def
        example_refresh_payload_def Let_def)
  from refresh_overwrites_refresh_token
         [where st = example_browser and net = example_network and secret = example_secret
            and now = 1700003700000 and rt = "[Tok example_refresh_token]",
          OF held served refreshed]
  have "getRefreshToken (snd (handleTokenRefresh example_network example_browser))
          = Some (Txt ''undefined'')
      \<and> getRefreshToken (snd (handleTokenRefresh example_network example_browser))
          \<noteq> Some [Tok example_refresh_token]"
    by (elim exE conjE) simp
  with held refreshed show ?thesis by (intro conjI) simp_all
qed


end
